theory Spec2Isabelle
  imports Complex_Main
begin

text \<open>
  The quality-assurance checks of \<open>wdpa/qa.py\<close> on the attribute table of the World
  Database on Protected Areas, as functions on a model of the pandas DataFrame, and the
  properties that the specification states about them. Each check takes the table and the
  flag \<open>return_pid\<close>, and returns either whether a record offends or the \<open>WDPA_PID\<close>
  values of the offending records.
\<close>

section \<open>Numbers of a pandas column\<close>

text \<open>
  A numeric column of the attribute table is a float64 column. A cell holds NaN (which is
  also how a missing value is stored), an infinity, a zero with either sign, or another
  finite number: \<open>Fin x\<close> is the cell of value \<open>x\<close>, \<open>Fin 0\<close> the zero with the plus sign
  and \<open>NZero\<close> the zero with the minus sign.
\<close>

datatype fl = NaN | NInf | Fin real | NZero | PInf

text \<open>
  Two things are outside the sources and differ between installations: how an exact
  result is rounded to float64 (to a neighbouring number, to a zero or to an infinity),
  and in which order numpy or bottleneck add up an array. They are the two fields of the
  parameter \<open>arith\<close> of the arithmetic below, and nothing is assumed about them:
  \<open>rnd\<close> rounds a positive real, \<open>nansum\<close> adds up the entries of an array that are not
  NaN. What IEEE 754 fixes without rounding is written out: the sign of a result, the
  results that are exactly zero, the infinities and NaN.
\<close>

record arith =
  rnd :: "real \<Rightarrow> fl"
  nansum :: "fl list \<Rightarrow> fl"

fun fl_neg :: "fl \<Rightarrow> fl" where
  "fl_neg NaN = NaN"
| "fl_neg NInf = PInf"
| "fl_neg (Fin x) = (if x = 0 then NZero else Fin (- x))"
| "fl_neg NZero = Fin 0"
| "fl_neg PInf = NInf"

fun fl_abs :: "fl \<Rightarrow> fl" where
  "fl_abs NaN = NaN"
| "fl_abs NInf = PInf"
| "fl_abs (Fin x) = Fin \<bar>x\<bar>"
| "fl_abs NZero = Fin 0"
| "fl_abs PInf = PInf"

text \<open>The value of a finite cell, its sign bit, and the zeros and infinities by sign.\<close>

fun fin :: "fl \<Rightarrow> real" where
  "fin (Fin x) = x"
| "fin _ = 0"

fun sign_bit :: "fl \<Rightarrow> bool" where
  "sign_bit NInf = True"
| "sign_bit NZero = True"
| "sign_bit (Fin x) = (x < 0)"
| "sign_bit _ = False"

definition is_zero :: "fl \<Rightarrow> bool" where
  "is_zero v = (v = Fin 0 \<or> v = NZero)"

definition is_inf :: "fl \<Rightarrow> bool" where
  "is_inf v = (v = PInf \<or> v = NInf)"

definition zero_with :: "bool \<Rightarrow> fl" where
  "zero_with negative = (if negative then NZero else Fin 0)"

definition inf_with :: "bool \<Rightarrow> fl" where
  "inf_with negative = (if negative then NInf else PInf)"

text \<open>The rounding of an exact result that is not zero: rounding is symmetric in the sign.\<close>

definition rounded :: "arith \<Rightarrow> real \<Rightarrow> fl" where
  "rounded ar z = (if 0 < z then rnd ar z else fl_neg (rnd ar (- z)))"

text \<open>
  A sum that is exactly zero is the zero with the plus sign, except that the sum of two
  zeros with the minus sign keeps it; opposite infinities add up to NaN.
\<close>

definition fl_add :: "arith \<Rightarrow> fl \<Rightarrow> fl \<Rightarrow> fl" where
  "fl_add ar a b =
     (if a = NaN \<or> b = NaN then NaN
      else if is_inf a then (if is_inf b \<and> a \<noteq> b then NaN else a)
      else if is_inf b then b
      else if a = NZero \<and> b = NZero then NZero
      else if fin a + fin b = 0 then Fin 0
      else rounded ar (fin a + fin b))"

definition fl_sub :: "arith \<Rightarrow> fl \<Rightarrow> fl \<Rightarrow> fl" where
  "fl_sub ar a b = fl_add ar a (fl_neg b)"

text \<open>
  The sign of a product and of a quotient is the exclusive or of the signs. Zero times
  infinity is NaN.
\<close>

definition fl_mul :: "arith \<Rightarrow> fl \<Rightarrow> fl \<Rightarrow> fl" where
  "fl_mul ar a b =
     (if a = NaN \<or> b = NaN then NaN
      else if is_inf a \<or> is_inf b then
        (if is_zero a \<or> is_zero b then NaN else inf_with (sign_bit a \<noteq> sign_bit b))
      else if is_zero a \<or> is_zero b then zero_with (sign_bit a \<noteq> sign_bit b)
      else rounded ar (fin a * fin b))"

text \<open>
  Division of two columns never raises in pandas: a number that is not zero over a zero
  is an infinity, zero over zero and infinity over infinity are NaN.
\<close>

definition fl_div :: "arith \<Rightarrow> fl \<Rightarrow> fl \<Rightarrow> fl" where
  "fl_div ar a b =
     (if a = NaN \<or> b = NaN then NaN
      else if is_inf a then (if is_inf b then NaN else inf_with (sign_bit a \<noteq> sign_bit b))
      else if is_inf b then zero_with (sign_bit a \<noteq> sign_bit b)
      else if is_zero b then (if is_zero a then NaN else inf_with (sign_bit a \<noteq> sign_bit b))
      else if is_zero a then zero_with (sign_bit a \<noteq> sign_bit b)
      else rounded ar (fin a / fin b))"

fun fl_sqrt :: "arith \<Rightarrow> fl \<Rightarrow> fl" where
  "fl_sqrt ar NaN = NaN"
| "fl_sqrt ar NInf = NaN"
| "fl_sqrt ar (Fin x) = (if x < 0 then NaN else if x = 0 then Fin 0 else rnd ar (sqrt x))"
| "fl_sqrt ar NZero = NZero"
| "fl_sqrt ar PInf = PInf"

text \<open>
  Comparisons are exact. A comparison with NaN is false, and the two zeros are equal.
\<close>

fun fl_less :: "fl \<Rightarrow> fl \<Rightarrow> bool" where
  "fl_less NaN _ = False"
| "fl_less _ NaN = False"
| "fl_less NInf NInf = False"
| "fl_less NInf _ = True"
| "fl_less _ NInf = False"
| "fl_less PInf _ = False"
| "fl_less _ PInf = True"
| "fl_less a b = (fin a < fin b)"

definition fl_eq :: "fl \<Rightarrow> fl \<Rightarrow> bool" where
  "fl_eq a b = (a \<noteq> NaN \<and> b \<noteq> NaN \<and> (a = b \<or> (is_zero a \<and> is_zero b)))"

definition fl_gt :: "fl \<Rightarrow> fl \<Rightarrow> bool" where
  "fl_gt a b = fl_less b a"

definition fl_le :: "fl \<Rightarrow> fl \<Rightarrow> bool" where
  "fl_le a b = (fl_less a b \<or> fl_eq a b)"

definition fl_ge :: "fl \<Rightarrow> fl \<Rightarrow> bool" where
  "fl_ge a b = fl_le b a"

definition fl_ne :: "fl \<Rightarrow> fl \<Rightarrow> bool" where
  "fl_ne a b = (\<not> fl_eq a b)"

text \<open>
  The float64 numbers that the literals \<open>0.1\<close>, \<open>0.9\<close>, \<open>0.0001\<close> and \<open>1.0001\<close> of the
  source denote.
\<close>

definition float_0_1 :: real where
  "float_0_1 = 3602879701896397 / 36028797018963968"

definition float_0_9 :: real where
  "float_0_9 = 8106479329266893 / 9007199254740992"

definition float_0_0001 :: real where
  "float_0_0001 = 7378697629483821 / 73786976294838206464"

definition float_1_0001 :: real where
  "float_1_0001 = 4504049987333233 / 4503599627370496"

subsection \<open>Series reductions\<close>

text \<open>
  \<open>Series.mean()\<close> and \<open>Series.std()\<close> skip NaN. The mean is the sum of the remaining
  entries over their count, and NaN when none remains. The standard deviation uses
  \<open>ddof = 1\<close>: it is NaN when at most one entry remains, and otherwise the square root of
  the sum of the squared differences from the mean over the count less one. The count is
  a float64 number too.
\<close>

definition dropna_values :: "fl list \<Rightarrow> fl list" where
  "dropna_values xs = filter (\<lambda>x. x \<noteq> NaN) xs"

definition fl_of_count :: "arith \<Rightarrow> nat \<Rightarrow> fl" where
  "fl_of_count ar n = (if n = 0 then Fin 0 else rnd ar (real n))"

definition pd_mean :: "arith \<Rightarrow> fl list \<Rightarrow> fl" where
  "pd_mean ar xs =
     (let count = length (dropna_values xs)
      in if count > 0 then fl_div ar (nansum ar xs) (fl_of_count ar count) else NaN)"

definition pd_std :: "arith \<Rightarrow> fl list \<Rightarrow> fl" where
  "pd_std ar xs =
     (let count = length (dropna_values xs)
      in if count \<le> 1 then NaN
         else
           (let d = fl_sub ar (fl_of_count ar count) (Fin 1);
                avg = fl_div ar (nansum ar xs) (fl_of_count ar count);
                sqr = map (\<lambda>x. if x = NaN then NaN
                                else fl_mul ar (fl_sub ar avg x) (fl_sub ar avg x)) xs
            in fl_sqrt ar (fl_div ar (nansum ar sqr) d)))"

section \<open>The attribute table\<close>

text \<open>
  One record of the table, with the fields of \<open>INPUT_FIELDS_POLY\<close>. A text field holds a
  string or is missing (\<open>None\<close>: the loader turns the empty string into a missing value); an
  area field is a float64 cell, missing when NaN; the two identifier fields hold integers.
  The point table has the same fields without \<open>GIS_AREA\<close> and \<open>GIS_M_AREA\<close>, which
  only the checks of \<open>area_checks\<close> read.
\<close>

record row =
  WDPAID :: "int option"
  WDPA_PID :: "string option"
  PA_DEF :: "string option"
  NAME :: "string option"
  ORIG_NAME :: "string option"
  DESIG :: "string option"
  DESIG_ENG :: "string option"
  DESIG_TYPE :: "string option"
  IUCN_CAT :: "string option"
  INT_CRIT :: "string option"
  MARINE :: "string option"
  REP_M_AREA :: fl
  GIS_M_AREA :: fl
  REP_AREA :: fl
  GIS_AREA :: fl
  NO_TAKE :: "string option"
  NO_TK_AREA :: fl
  STATUS :: "string option"
  STATUS_YR :: "string option"
  GOV_TYPE :: "string option"
  OWN_TYPE :: "string option"
  MANG_AUTH :: "string option"
  MANG_PLAN :: "string option"
  VERIF :: "string option"
  METADATAID :: "int option"
  SUB_LOC :: "string option"
  PARENT_ISO3 :: "string option"
  ISO3 :: "string option"

text \<open>
  The DataFrame: its records in order, and the two columns that the marine check adds to
  it (\<open>None\<close> while the column does not exist).
\<close>

record dataframe =
  rows :: "row list"
  marine_GIS_proportion :: "fl list option"
  marine_GIS_value :: "string option list option"

text \<open>
  What a check returns: a boolean, or with \<open>return_pid\<close> the array of offending
  \<open>WDPA_PID\<close> values. What it raises is a value as well.
\<close>

datatype outcome = Flag bool | Pids "string option list"

datatype error = AttributeError | KeyError | ValueError | Exception

section \<open>The pandas operations the checks use\<close>

text \<open>\<open>wdpa_df[mask]\<close>: the entries at which the boolean mask is true.\<close>

definition select_rows :: "bool list \<Rightarrow> 'a list \<Rightarrow> 'a list" where
  "select_rows keep xs = map snd (filter fst (zip keep xs))"

text \<open>\<open>Series.isin(values)\<close> is membership in the list, cell by cell.\<close>

definition isin :: "'a list \<Rightarrow> 'a list \<Rightarrow> bool list" where
  "isin column vals = map (\<lambda>x. x \<in> set vals) column"

text \<open>
  \<open>Series.duplicated()\<close> marks every occurrence of a value after its first one,
  \<open>unique()\<close> keeps the first occurrence of each value in order, and \<open>nunique()\<close> counts
  the distinct values that are not missing. A missing value equals a missing value in the
  first two.
\<close>

fun duplicated_from :: "'a list \<Rightarrow> 'a list \<Rightarrow> bool list" where
  "duplicated_from seen [] = []"
| "duplicated_from seen (x # xs) = (x \<in> set seen) # duplicated_from (x # seen) xs"

definition pd_duplicated :: "'a list \<Rightarrow> bool list" where
  "pd_duplicated xs = duplicated_from [] xs"

fun unique_from :: "'a list \<Rightarrow> 'a list \<Rightarrow> 'a list" where
  "unique_from seen [] = []"
| "unique_from seen (x # xs) =
     (if x \<in> set seen then unique_from seen xs else x # unique_from (x # seen) xs)"

definition pd_unique :: "'a list \<Rightarrow> 'a list" where
  "pd_unique xs = unique_from [] xs"

definition pd_nunique :: "'a option list \<Rightarrow> nat" where
  "pd_nunique xs = length (pd_unique (filter (\<lambda>x. x \<noteq> None) xs))"

text \<open>
  \<open>groupby(key)[field].nunique()\<close>: for each key that is not missing, in ascending order,
  the number of distinct values of the field among the records with that key.
\<close>

definition groupby_nunique :: "int option list \<Rightarrow> 'v option list \<Rightarrow> (int \<times> nat) list" where
  "groupby_nunique keys vals =
     map (\<lambda>k. (k, pd_nunique (select_rows (map (\<lambda>x. x = Some k) keys) vals)))
       (sort (pd_unique (concat (map (\<lambda>x. case x of None \<Rightarrow> [] | Some k \<Rightarrow> [k]) keys))))"

text \<open>
  \<open>!=\<close> between two columns of Python objects: true wherever either side is missing,
  otherwise the inequality of the two values.
\<close>

definition obj_ne :: "'a option \<Rightarrow> 'a option \<Rightarrow> bool" where
  "obj_ne a b = (case (a, b) of (Some x, Some y) \<Rightarrow> x \<noteq> y | _ \<Rightarrow> True)"

text \<open>\<open>Series.apply(f)\<close>: \<open>f\<close> on each cell in order; the first exception ends it.\<close>

fun series_apply :: "('a \<Rightarrow> error + 'b) \<Rightarrow> 'a list \<Rightarrow> error + 'b list" where
  "series_apply f [] = Inr []"
| "series_apply f (x # xs) =
     (case f x of
        Inl e \<Rightarrow> Inl e
      | Inr y \<Rightarrow> (case series_apply f xs of Inl e \<Rightarrow> Inl e | Inr ys \<Rightarrow> Inr (y # ys)))"

text \<open>
  \<open>DataFrame.dropna()\<close> keeps the records that have no missing value in any column, the
  added columns included when they exist.
\<close>

definition row_notna :: "row \<Rightarrow> bool" where
  "row_notna r =
     (WDPAID r \<noteq> None \<and> WDPA_PID r \<noteq> None \<and> PA_DEF r \<noteq> None \<and> NAME r \<noteq> None
      \<and> ORIG_NAME r \<noteq> None \<and> DESIG r \<noteq> None \<and> DESIG_ENG r \<noteq> None \<and> DESIG_TYPE r \<noteq> None
      \<and> IUCN_CAT r \<noteq> None \<and> INT_CRIT r \<noteq> None \<and> MARINE r \<noteq> None \<and> REP_M_AREA r \<noteq> NaN
      \<and> GIS_M_AREA r \<noteq> NaN \<and> REP_AREA r \<noteq> NaN \<and> GIS_AREA r \<noteq> NaN \<and> NO_TAKE r \<noteq> None
      \<and> NO_TK_AREA r \<noteq> NaN \<and> STATUS r \<noteq> None \<and> STATUS_YR r \<noteq> None \<and> GOV_TYPE r \<noteq> None
      \<and> OWN_TYPE r \<noteq> None \<and> MANG_AUTH r \<noteq> None \<and> MANG_PLAN r \<noteq> None \<and> VERIF r \<noteq> None
      \<and> METADATAID r \<noteq> None \<and> SUB_LOC r \<noteq> None \<and> PARENT_ISO3 r \<noteq> None \<and> ISO3 r \<noteq> None)"

definition column_notna :: "nat \<Rightarrow> ('a \<Rightarrow> bool) \<Rightarrow> 'a list option \<Rightarrow> bool list" where
  "column_notna n present column =
     (case column of None \<Rightarrow> replicate n True | Some xs \<Rightarrow> map present xs)"

definition dropna :: "dataframe \<Rightarrow> dataframe" where
  "dropna wdpa_df =
     (let n = length (rows wdpa_df);
          keep = map2 (\<and>) (map row_notna (rows wdpa_df))
                   (map2 (\<and>)
                      (column_notna n (\<lambda>x. x \<noteq> NaN) (marine_GIS_proportion wdpa_df))
                      (column_notna n (\<lambda>x. x \<noteq> None) (marine_GIS_value wdpa_df)))
      in \<lparr>rows = select_rows keep (rows wdpa_df),
          marine_GIS_proportion = map_option (select_rows keep) (marine_GIS_proportion wdpa_df),
          marine_GIS_value = map_option (select_rows keep) (marine_GIS_value wdpa_df)\<rparr>)"

text \<open>
  \<open>Series.str.contains(pattern)\<close> for a pattern that is an alternation of single escaped
  characters: whether the string holds one of them (ignoring case changes nothing for
  these characters). On a missing value the result is missing too.
\<close>

definition str_contains :: "char list \<Rightarrow> string option \<Rightarrow> bool option" where
  "str_contains chars v =
     (case v of None \<Rightarrow> None | Some s \<Rightarrow> Some (list_ex (\<lambda>c. c \<in> set chars) s))"

text \<open>Indexing by a mask raises when the mask has a missing entry.\<close>

fun bool_mask :: "bool option list \<Rightarrow> error + bool list" where
  "bool_mask [] = Inr []"
| "bool_mask (None # bs) = Inl ValueError"
| "bool_mask (Some b # bs) =
     (case bool_mask bs of Inl e \<Rightarrow> Inl e | Inr ms \<Rightarrow> Inr (b # ms))"

subsection \<open>Python's own functions\<close>

text \<open>\<open>s.split(';')\<close>: the pieces between the separators, empty pieces included.\<close>

fun py_split :: "char \<Rightarrow> string \<Rightarrow> string list" where
  "py_split sep [] = [[]]"
| "py_split sep (c # cs) =
     (if c = sep then [] # py_split sep cs
      else (case py_split sep cs of
              [] \<Rightarrow> [[c]]
            | w # ws \<Rightarrow> (c # w) # ws))"

text \<open>\<open>str(n)\<close> of a natural number: its decimal digits.\<close>

definition digit_char :: "nat \<Rightarrow> char" where
  "digit_char d = ''0123456789'' ! (d mod 10)"

fun py_str :: "nat \<Rightarrow> string" where
  "py_str n = (if n < 10 then [digit_char n] else py_str (n div 10) @ [digit_char (n mod 10)])"

declare py_str.simps [simp del]

text \<open>
  \<open>itertools.combinations(xs, k)\<close>: the sublists of \<open>xs\<close> with \<open>k\<close> elements, in the order
  of their positions.
\<close>

fun combinations :: "'a list \<Rightarrow> nat \<Rightarrow> 'a list list" where
  "combinations xs 0 = [[]]"
| "combinations [] (Suc k) = []"
| "combinations (x # xs) (Suc k) = map ((#) x) (combinations xs k) @ combinations xs (Suc k)"


section \<open>Hardcoded checks\<close>

text \<open>
  A check receives the DataFrame of its caller by reference. An item assignment
  \<open>wdpa_df[column] = values\<close> changes that DataFrame; an assignment to the name
  \<open>wdpa_df\<close> binds the name to another DataFrame and leaves the caller's one alone. Each
  check below therefore returns two things: what the Python function returns or raises, and
  the caller's DataFrame as it is when the function is left.
\<close>

subsection \<open>Duplicate WDPA\_PID\<close>

definition duplicate_wdpa_pid :: "dataframe \<Rightarrow> bool \<Rightarrow> outcome \<times> dataframe" where
  "duplicate_wdpa_pid wdpa_df return_pid =
     (if return_pid then
        (let ids = map WDPA_PID (rows wdpa_df)
         in (Pids (pd_unique (select_rows (pd_duplicated ids) ids)), wdpa_df))
      else (Flag (pd_nunique (map WDPA_PID (rows wdpa_df)) \<noteq> length (rows wdpa_df)), wdpa_df))"

subsection \<open>MARINE against the GIS areas\<close>

text \<open>
  The inner function of \<open>area_invalid_marine\<close>; it reads the proportion of its row and the
  two thresholds of the enclosing function, and falls off its end (returning \<open>None\<close>) when
  no comparison holds.
\<close>

definition assign_marine_gis_value :: "fl \<Rightarrow> fl \<Rightarrow> fl \<Rightarrow> string option" where
  "assign_marine_gis_value coast_min coast_max marine_GIS_proportion_of_row =
     (if fl_le marine_GIS_proportion_of_row coast_min then Some ''0''
      else if fl_less coast_min marine_GIS_proportion_of_row
              \<and> fl_less marine_GIS_proportion_of_row coast_max then Some ''1''
      else if fl_ge marine_GIS_proportion_of_row coast_max then Some ''2''
      else None)"

text \<open>
  The thresholds \<open>0.1\<close> and \<open>0.9\<close> are float64 numbers, and so is the quotient of the two
  columns. The check assigns two columns of the DataFrame it is given.
\<close>

definition area_invalid_marine :: "arith \<Rightarrow> dataframe \<Rightarrow> bool \<Rightarrow> outcome \<times> dataframe" where
  "area_invalid_marine ar wdpa_df return_pid =
     (let coast_min = Fin float_0_1;
          coast_max = Fin float_0_9;
          proportion = map (\<lambda>r. fl_div ar (GIS_M_AREA r) (GIS_AREA r)) (rows wdpa_df);
          wdpa_df1 = wdpa_df\<lparr>marine_GIS_proportion := Some proportion\<rparr>;
          gis_value = map (assign_marine_gis_value coast_min coast_max) proportion;
          wdpa_df2 = wdpa_df1\<lparr>marine_GIS_value := Some gis_value\<rparr>;
          keep = map2 obj_ne gis_value (map MARINE (rows wdpa_df2));
          invalid_wdpa_pid = map WDPA_PID (select_rows keep (rows wdpa_df2))
      in (if return_pid then Pids invalid_wdpa_pid
          else Flag (length invalid_wdpa_pid > 0),
          wdpa_df2))"

subsection \<open>GIS\_AREA much larger than REP\_AREA\<close>

definition area_invalid_too_large_gis :: "arith \<Rightarrow> dataframe \<Rightarrow> bool \<Rightarrow> outcome \<times> dataframe" where
  "area_invalid_too_large_gis ar wdpa_df return_pid =
     (let MAX_ALLOWED_SIZE_DIFF_KM2 = Fin 50;
          calc = map (\<lambda>r. fl_div ar (fl_add ar (REP_AREA r) (GIS_AREA r)) (REP_AREA r)) (rows wdpa_df);
          relative_size_stats =
            map (\<lambda>c. if fl_gt c (Fin 100) then NaN else if fl_less c (Fin 0) then NaN else c) calc;
          max_gis = fl_add ar (pd_mean ar relative_size_stats)
                      (fl_mul ar (Fin 2) (pd_std ar relative_size_stats));
          relative_size =
            map (\<lambda>r. fl_div ar (fl_add ar (REP_AREA r) (GIS_AREA r)) (REP_AREA r)) (rows wdpa_df);
          keep = map2 (\<lambda>rs r. fl_gt rs max_gis \<and>
                   fl_gt (fl_abs (fl_sub ar (GIS_AREA r) (REP_AREA r))) MAX_ALLOWED_SIZE_DIFF_KM2)
                   relative_size (rows wdpa_df);
          invalid_wdpa_pid = map WDPA_PID (select_rows keep (rows wdpa_df))
      in (if return_pid then Pids invalid_wdpa_pid
          else Flag (length invalid_wdpa_pid > 0),
          wdpa_df))"

subsection \<open>REP\_AREA much larger than GIS\_AREA\<close>

definition area_invalid_too_large_rep :: "arith \<Rightarrow> dataframe \<Rightarrow> bool \<Rightarrow> outcome \<times> dataframe" where
  "area_invalid_too_large_rep ar wdpa_df return_pid =
     (let MAX_ALLOWED_SIZE_DIFF_KM2 = Fin 50;
          calc = map (\<lambda>r. fl_div ar (fl_add ar (REP_AREA r) (GIS_AREA r)) (GIS_AREA r)) (rows wdpa_df);
          relative_size_stats =
            map (\<lambda>c. if fl_gt c (Fin 100) then NaN else if fl_less c (Fin 0) then NaN else c) calc;
          max_rep = fl_add ar (pd_mean ar relative_size_stats)
                      (fl_mul ar (Fin 2) (pd_std ar relative_size_stats));
          relative_size =
            map (\<lambda>r. fl_div ar (fl_add ar (REP_AREA r) (GIS_AREA r)) (GIS_AREA r)) (rows wdpa_df);
          keep = map2 (\<lambda>rs r. fl_gt rs max_rep \<and>
                   fl_gt (fl_abs (fl_sub ar (REP_AREA r) (GIS_AREA r))) MAX_ALLOWED_SIZE_DIFF_KM2)
                   relative_size (rows wdpa_df);
          invalid_wdpa_pid = map WDPA_PID (select_rows keep (rows wdpa_df))
      in (if return_pid then Pids invalid_wdpa_pid
          else Flag (length invalid_wdpa_pid > 0),
          wdpa_df))"

subsection \<open>GIS\_M\_AREA much larger than REP\_M\_AREA\<close>

definition area_invalid_too_large_gis_m :: "arith \<Rightarrow> dataframe \<Rightarrow> bool \<Rightarrow> outcome \<times> dataframe" where
  "area_invalid_too_large_gis_m ar wdpa_df return_pid =
     (let MAX_ALLOWED_SIZE_DIFF_KM2 = Fin 50;
          calc = map (\<lambda>r. fl_div ar (fl_add ar (REP_M_AREA r) (GIS_M_AREA r)) (REP_M_AREA r)) (rows wdpa_df);
          relative_size_stats =
            map (\<lambda>c. if fl_gt c (Fin 100) then NaN else if fl_less c (Fin 0) then NaN else c) calc;
          max_gis = fl_add ar (pd_mean ar relative_size_stats)
                      (fl_mul ar (Fin 2) (pd_std ar relative_size_stats));
          relative_size =
            map (\<lambda>r. fl_div ar (fl_add ar (REP_M_AREA r) (GIS_M_AREA r)) (REP_M_AREA r)) (rows wdpa_df);
          keep = map2 (\<lambda>rs r. fl_gt rs max_gis \<and>
                   fl_gt (fl_abs (fl_sub ar (GIS_M_AREA r) (REP_M_AREA r))) MAX_ALLOWED_SIZE_DIFF_KM2)
                   relative_size (rows wdpa_df);
          invalid_wdpa_pid = map WDPA_PID (select_rows keep (rows wdpa_df))
      in (if return_pid then Pids invalid_wdpa_pid
          else Flag (length invalid_wdpa_pid > 0),
          wdpa_df))"

subsection \<open>REP\_M\_AREA much larger than GIS\_M\_AREA\<close>

definition area_invalid_too_large_rep_m :: "arith \<Rightarrow> dataframe \<Rightarrow> bool \<Rightarrow> outcome \<times> dataframe" where
  "area_invalid_too_large_rep_m ar wdpa_df return_pid =
     (let MAX_ALLOWED_SIZE_DIFF_KM2 = Fin 50;
          calc = map (\<lambda>r. fl_div ar (fl_add ar (REP_M_AREA r) (GIS_M_AREA r)) (GIS_M_AREA r)) (rows wdpa_df);
          relative_size_stats =
            map (\<lambda>c. if fl_gt c (Fin 100) then NaN else if fl_less c (Fin 0) then NaN else c) calc;
          max_rep = fl_add ar (pd_mean ar relative_size_stats)
                      (fl_mul ar (Fin 2) (pd_std ar relative_size_stats));
          relative_size =
            map (\<lambda>r. fl_div ar (fl_add ar (REP_M_AREA r) (GIS_M_AREA r)) (GIS_M_AREA r)) (rows wdpa_df);
          keep = map2 (\<lambda>rs r. fl_gt rs max_rep \<and>
                   fl_gt (fl_abs (fl_sub ar (REP_M_AREA r) (GIS_M_AREA r))) MAX_ALLOWED_SIZE_DIFF_KM2)
                   relative_size (rows wdpa_df);
          invalid_wdpa_pid = map WDPA_PID (select_rows keep (rows wdpa_df))
      in (if return_pid then Pids invalid_wdpa_pid
          else Flag (length invalid_wdpa_pid > 0),
          wdpa_df))"

subsection \<open>GIS\_AREA of at most 0.0001\<close>

definition area_invalid_gis_area :: "dataframe \<Rightarrow> bool \<Rightarrow> outcome \<times> dataframe" where
  "area_invalid_gis_area wdpa_df return_pid =
     (let size_threshold = Fin float_0_0001;
          field_gis_area = GIS_AREA;
          invalid_wdpa_pid = map WDPA_PID (select_rows
            (map (\<lambda>r. fl_le (field_gis_area r) size_threshold) (rows wdpa_df)) (rows wdpa_df))
      in (if return_pid then Pids invalid_wdpa_pid
          else Flag (length invalid_wdpa_pid > 0),
          wdpa_df))"

subsection \<open>REP\_AREA of at most 0.0001\<close>

definition area_invalid_rep_area :: "dataframe \<Rightarrow> bool \<Rightarrow> outcome \<times> dataframe" where
  "area_invalid_rep_area wdpa_df return_pid =
     (let size_threshold = Fin float_0_0001;
          field_rep_area = REP_AREA;
          invalid_wdpa_pid = map WDPA_PID (select_rows
            (map (\<lambda>r. fl_le (field_rep_area r) size_threshold) (rows wdpa_df)) (rows wdpa_df))
      in (if return_pid then Pids invalid_wdpa_pid
          else Flag (length invalid_wdpa_pid > 0),
          wdpa_df))"

subsection \<open>REP\_M\_AREA of at most 0 when MARINE is 1 or 2\<close>

definition area_invalid_rep_m_area_marine12 :: "dataframe \<Rightarrow> bool \<Rightarrow> outcome \<times> dataframe" where
  "area_invalid_rep_m_area_marine12 wdpa_df return_pid =
     (let field = REP_M_AREA;
          field_allowed_values = Fin 0;
          condition_field = MARINE;
          condition_crit = [Some ''1'', Some ''2''];
          invalid_wdpa_pid = map WDPA_PID (select_rows
            (map2 (\<and>) (map (\<lambda>r. fl_le (field r) field_allowed_values) (rows wdpa_df))
                       (isin (map condition_field (rows wdpa_df)) condition_crit))
            (rows wdpa_df))
      in (if return_pid then Pids invalid_wdpa_pid
          else Flag (length invalid_wdpa_pid > 0),
          wdpa_df))"

subsection \<open>GIS\_M\_AREA of at most 0 when MARINE is 1 or 2\<close>

definition area_invalid_gis_m_area_marine12 :: "dataframe \<Rightarrow> bool \<Rightarrow> outcome \<times> dataframe" where
  "area_invalid_gis_m_area_marine12 wdpa_df return_pid =
     (let field = GIS_M_AREA;
          field_allowed_values = Fin 0;
          condition_field = MARINE;
          condition_crit = [Some ''1'', Some ''2''];
          invalid_wdpa_pid = map WDPA_PID (select_rows
            (map2 (\<and>) (map (\<lambda>r. fl_le (field r) field_allowed_values) (rows wdpa_df))
                       (isin (map condition_field (rows wdpa_df)) condition_crit))
            (rows wdpa_df))
      in (if return_pid then Pids invalid_wdpa_pid
          else Flag (length invalid_wdpa_pid > 0),
          wdpa_df))"

subsection \<open>NO\_TAKE, NO\_TK\_AREA and REP\_M\_AREA\<close>

definition invalid_no_take_no_tk_area_rep_m_area :: "dataframe \<Rightarrow> bool \<Rightarrow> outcome \<times> dataframe" where
  "invalid_no_take_no_tk_area_rep_m_area wdpa_df return_pid =
     (let no_take_all = select_rows (map (\<lambda>r. NO_TAKE r = Some ''All'') (rows wdpa_df)) (rows wdpa_df);
          invalid_wdpa_pid = map WDPA_PID (select_rows
            (map2 fl_ne (map REP_M_AREA no_take_all) (map NO_TK_AREA no_take_all)) no_take_all)
      in (if return_pid then Pids invalid_wdpa_pid
          else Flag (length invalid_wdpa_pid > 0),
          wdpa_df))"

subsection \<open>INT\_CRIT and DESIG\_ENG of other sites\<close>

definition invalid_int_crit_desig_eng_other :: "dataframe \<Rightarrow> bool \<Rightarrow> outcome \<times> dataframe" where
  "invalid_int_crit_desig_eng_other wdpa_df return_pid =
     (let field = DESIG_ENG;
          field_allowed_values = [Some ''Ramsar Site, Wetland of International Importance'',
                                   Some ''World Heritage Site (natural or mixed)''];
          condition_field = INT_CRIT;
          condition_crit = [Some ''Not Applicable''];
          invalid_wdpa_pid = map WDPA_PID (select_rows
            (map2 (\<and>) (map Not (isin (map field (rows wdpa_df)) field_allowed_values))
                       (map Not (isin (map condition_field (rows wdpa_df)) condition_crit)))
            (rows wdpa_df))
      in (if return_pid then Pids invalid_wdpa_pid
          else Flag (length invalid_wdpa_pid > 0),
          wdpa_df))"

subsection \<open>DESIG\_ENG and IUCN\_CAT of other sites\<close>

definition invalid_desig_eng_iucn_cat_other :: "dataframe \<Rightarrow> bool \<Rightarrow> outcome \<times> dataframe" where
  "invalid_desig_eng_iucn_cat_other wdpa_df return_pid =
     (let field = IUCN_CAT;
          field_allowed_values = [Some ''Ia'', Some ''Ib'', Some ''II'', Some ''III'', Some ''IV'', Some ''V'',
                                   Some ''VI'', Some ''Not Reported'', Some ''Not Assigned''];
          condition_field = DESIG_ENG;
          condition_crit = [Some ''UNESCO-MAB Biosphere Reserve'',
                            Some ''World Heritage Site (natural or mixed)''];
          invalid_wdpa_pid = map WDPA_PID (select_rows
            (map2 (\<and>) (map Not (isin (map field (rows wdpa_df)) field_allowed_values))
                       (map Not (isin (map condition_field (rows wdpa_df)) condition_crit)))
            (rows wdpa_df))
      in (if return_pid then Pids invalid_wdpa_pid
          else Flag (length invalid_wdpa_pid > 0),
          wdpa_df))"

section \<open>Inconsistent fields for the same WDPAID\<close>

text \<open>
  The factory functions take the name of a field; here they take the selector of the
  column, and an empty name \<open>''\<close> is \<open>None\<close>.
\<close>

definition inconsistent_fields_same_wdpaid ::
  "dataframe \<Rightarrow> (row \<Rightarrow> 'v option) \<Rightarrow> bool \<Rightarrow> outcome \<times> dataframe" where
  "inconsistent_fields_same_wdpaid wdpa_df check_field return_pid =
     (if return_pid then
        (let wdpaid_groups =
               groupby_nunique (map WDPAID (rows wdpa_df)) (map check_field (rows wdpa_df));
             index = map fst (filter (\<lambda>(k, n). n > 1) wdpaid_groups)
         in (Pids (map WDPA_PID (select_rows
               (isin (map WDPAID (rows wdpa_df)) (map Some index)) (rows wdpa_df))),
             wdpa_df))
      else
        (Flag (sum_list (map (\<lambda>(k, n). if n > 1 then 1 else (0::nat))
                 (groupby_nunique (map WDPAID (rows wdpa_df)) (map check_field (rows wdpa_df)))) > 0),
         wdpa_df))"

definition inconsistent_name_same_wdpaid :: "dataframe \<Rightarrow> bool \<Rightarrow> outcome \<times> dataframe" where
  "inconsistent_name_same_wdpaid wdpa_df return_pid =
     (let check_field = NAME
      in inconsistent_fields_same_wdpaid wdpa_df check_field return_pid)"

definition inconsistent_orig_name_same_wdpaid :: "dataframe \<Rightarrow> bool \<Rightarrow> outcome \<times> dataframe" where
  "inconsistent_orig_name_same_wdpaid wdpa_df return_pid =
     (let check_field = ORIG_NAME
      in inconsistent_fields_same_wdpaid wdpa_df check_field return_pid)"

definition inconsistent_desig_same_wdpaid :: "dataframe \<Rightarrow> bool \<Rightarrow> outcome \<times> dataframe" where
  "inconsistent_desig_same_wdpaid wdpa_df return_pid =
     (let check_field = DESIG
      in inconsistent_fields_same_wdpaid wdpa_df check_field return_pid)"

definition inconsistent_desig_eng_same_wdpaid :: "dataframe \<Rightarrow> bool \<Rightarrow> outcome \<times> dataframe" where
  "inconsistent_desig_eng_same_wdpaid wdpa_df return_pid =
     (let check_field = DESIG_ENG
      in inconsistent_fields_same_wdpaid wdpa_df check_field return_pid)"

definition inconsistent_desig_type_same_wdpaid :: "dataframe \<Rightarrow> bool \<Rightarrow> outcome \<times> dataframe" where
  "inconsistent_desig_type_same_wdpaid wdpa_df return_pid =
     (let check_field = DESIG_TYPE
      in inconsistent_fields_same_wdpaid wdpa_df check_field return_pid)"

definition inconsistent_int_crit_same_wdpaid :: "dataframe \<Rightarrow> bool \<Rightarrow> outcome \<times> dataframe" where
  "inconsistent_int_crit_same_wdpaid wdpa_df return_pid =
     (let check_field = INT_CRIT
      in inconsistent_fields_same_wdpaid wdpa_df check_field return_pid)"

definition inconsistent_no_take_same_wdpaid :: "dataframe \<Rightarrow> bool \<Rightarrow> outcome \<times> dataframe" where
  "inconsistent_no_take_same_wdpaid wdpa_df return_pid =
     (let check_field = NO_TAKE
      in inconsistent_fields_same_wdpaid wdpa_df check_field return_pid)"

definition inconsistent_status_same_wdpaid :: "dataframe \<Rightarrow> bool \<Rightarrow> outcome \<times> dataframe" where
  "inconsistent_status_same_wdpaid wdpa_df return_pid =
     (let check_field = STATUS
      in inconsistent_fields_same_wdpaid wdpa_df check_field return_pid)"

definition inconsistent_status_yr_same_wdpaid :: "dataframe \<Rightarrow> bool \<Rightarrow> outcome \<times> dataframe" where
  "inconsistent_status_yr_same_wdpaid wdpa_df return_pid =
     (let check_field = STATUS_YR
      in inconsistent_fields_same_wdpaid wdpa_df check_field return_pid)"

definition inconsistent_gov_type_same_wdpaid :: "dataframe \<Rightarrow> bool \<Rightarrow> outcome \<times> dataframe" where
  "inconsistent_gov_type_same_wdpaid wdpa_df return_pid =
     (let check_field = GOV_TYPE
      in inconsistent_fields_same_wdpaid wdpa_df check_field return_pid)"

definition inconsistent_own_type_same_wdpaid :: "dataframe \<Rightarrow> bool \<Rightarrow> outcome \<times> dataframe" where
  "inconsistent_own_type_same_wdpaid wdpa_df return_pid =
     (let check_field = OWN_TYPE
      in inconsistent_fields_same_wdpaid wdpa_df check_field return_pid)"

definition inconsistent_mang_auth_same_wdpaid :: "dataframe \<Rightarrow> bool \<Rightarrow> outcome \<times> dataframe" where
  "inconsistent_mang_auth_same_wdpaid wdpa_df return_pid =
     (let check_field = MANG_AUTH
      in inconsistent_fields_same_wdpaid wdpa_df check_field return_pid)"

definition inconsistent_mang_plan_same_wdpaid :: "dataframe \<Rightarrow> bool \<Rightarrow> outcome \<times> dataframe" where
  "inconsistent_mang_plan_same_wdpaid wdpa_df return_pid =
     (let check_field = MANG_PLAN
      in inconsistent_fields_same_wdpaid wdpa_df check_field return_pid)"

definition inconsistent_verif_same_wdpaid :: "dataframe \<Rightarrow> bool \<Rightarrow> outcome \<times> dataframe" where
  "inconsistent_verif_same_wdpaid wdpa_df return_pid =
     (let check_field = VERIF
      in inconsistent_fields_same_wdpaid wdpa_df check_field return_pid)"

definition inconsistent_metadataid_same_wdpaid :: "dataframe \<Rightarrow> bool \<Rightarrow> outcome \<times> dataframe" where
  "inconsistent_metadataid_same_wdpaid wdpa_df return_pid =
     (let check_field = METADATAID
      in inconsistent_fields_same_wdpaid wdpa_df check_field return_pid)"

definition inconsistent_sub_loc_same_wdpaid :: "dataframe \<Rightarrow> bool \<Rightarrow> outcome \<times> dataframe" where
  "inconsistent_sub_loc_same_wdpaid wdpa_df return_pid =
     (let check_field = SUB_LOC
      in inconsistent_fields_same_wdpaid wdpa_df check_field return_pid)"

definition inconsistent_parent_iso3_same_wdpaid :: "dataframe \<Rightarrow> bool \<Rightarrow> outcome \<times> dataframe" where
  "inconsistent_parent_iso3_same_wdpaid wdpa_df return_pid =
     (let check_field = PARENT_ISO3
      in inconsistent_fields_same_wdpaid wdpa_df check_field return_pid)"

definition inconsistent_iso3_same_wdpaid :: "dataframe \<Rightarrow> bool \<Rightarrow> outcome \<times> dataframe" where
  "inconsistent_iso3_same_wdpaid wdpa_df return_pid =
     (let check_field = ISO3
      in inconsistent_fields_same_wdpaid wdpa_df check_field return_pid)"

section \<open>Invalid values in fields\<close>

definition invalid_value_in_field ::
  "dataframe \<Rightarrow> (row \<Rightarrow> 'a) \<Rightarrow> 'a list \<Rightarrow> (row \<Rightarrow> 'b) option \<Rightarrow> 'b list \<Rightarrow> bool \<Rightarrow> outcome \<times> dataframe" where
  "invalid_value_in_field wdpa_df field field_allowed_values condition_field condition_crit return_pid =
     (let unconditional =
            map WDPA_PID (select_rows
              (map Not (isin (map field (rows wdpa_df)) field_allowed_values)) (rows wdpa_df));
          invalid_wdpa_pid =
            (case condition_field of
               Some cf \<Rightarrow>
                 if condition_crit \<noteq> [] then
                   map WDPA_PID (select_rows
                     (map2 (\<and>) (map Not (isin (map field (rows wdpa_df)) field_allowed_values))
                                (isin (map cf (rows wdpa_df)) condition_crit))
                     (rows wdpa_df))
                 else unconditional
             | None \<Rightarrow> unconditional)
      in (if return_pid then Pids invalid_wdpa_pid
          else Flag (length invalid_wdpa_pid > 0),
          wdpa_df))"

definition invalid_value_in_field_isnot ::
  "dataframe \<Rightarrow> (row \<Rightarrow> 'a) \<Rightarrow> 'a list \<Rightarrow> (row \<Rightarrow> 'b) option \<Rightarrow> 'b list \<Rightarrow> bool \<Rightarrow> outcome \<times> dataframe" where
  "invalid_value_in_field_isnot wdpa_df field field_allowed_values condition_field condition_crit return_pid =
     (let unconditional =
            map WDPA_PID (select_rows
              (map Not (isin (map field (rows wdpa_df)) field_allowed_values)) (rows wdpa_df));
          invalid_wdpa_pid =
            (case condition_field of
               Some cf \<Rightarrow>
                 if condition_crit \<noteq> [] then
                   map WDPA_PID (select_rows
                     (map2 (\<and>) (map Not (isin (map field (rows wdpa_df)) field_allowed_values))
                                (map Not (isin (map cf (rows wdpa_df)) condition_crit)))
                     (rows wdpa_df))
                 else unconditional
             | None \<Rightarrow> unconditional)
      in (if return_pid then Pids invalid_wdpa_pid
          else Flag (length invalid_wdpa_pid > 0),
          wdpa_df))"

definition invalid_pa_def :: "dataframe \<Rightarrow> bool \<Rightarrow> outcome \<times> dataframe" where
  "invalid_pa_def wdpa_df return_pid =
     (let field = PA_DEF;
          field_allowed_values = [Some ''1''];
          condition_field = (None :: (row \<Rightarrow> string option) option);
          condition_crit = ([] :: string option list)
      in invalid_value_in_field wdpa_df field field_allowed_values condition_field condition_crit return_pid)"

definition invalid_desig_eng_international :: "dataframe \<Rightarrow> bool \<Rightarrow> outcome \<times> dataframe" where
  "invalid_desig_eng_international wdpa_df return_pid =
     (let field = DESIG_ENG;
          field_allowed_values = [Some ''Ramsar Site, Wetland of International Importance'',
                                   Some ''UNESCO-MAB Biosphere Reserve'',
                                   Some ''World Heritage Site (natural or mixed)''];
          condition_field = Some DESIG_TYPE;
          condition_crit = [Some ''International'']
      in invalid_value_in_field wdpa_df field field_allowed_values condition_field condition_crit return_pid)"

definition invalid_desig_type_international :: "dataframe \<Rightarrow> bool \<Rightarrow> outcome \<times> dataframe" where
  "invalid_desig_type_international wdpa_df return_pid =
     (let field = DESIG_TYPE;
          field_allowed_values = [Some ''International''];
          condition_field = Some DESIG_ENG;
          condition_crit = [Some ''Ramsar Site, Wetland of International Importance'',
                           Some ''UNESCO-MAB Biosphere Reserve'',
                           Some ''World Heritage Site (natural or mixed)'']
      in invalid_value_in_field wdpa_df field field_allowed_values condition_field condition_crit return_pid)"

definition invalid_desig_eng_regional :: "dataframe \<Rightarrow> bool \<Rightarrow> outcome \<times> dataframe" where
  "invalid_desig_eng_regional wdpa_df return_pid =
     (let field = DESIG_ENG;
          field_allowed_values = [Some ''Baltic Sea Protected Area (HELCOM)'',
                                   Some ''Specially Protected Area (Cartagena Convention)'',
                                   Some ''Marine Protected Area (CCAMLR)'',
                                   Some ''Marine Protected Area (OSPAR)'',
                                   Some ''Site of Community Importance (Habitats Directive)'',
                                   Some ''Special Protection Area (Birds Directive)'',
                                   Some ''Specially Protected Areas of Mediterranean Importance (Barcelona Convention)''];
          condition_field = Some DESIG_TYPE;
          condition_crit = [Some ''Regional'']
      in invalid_value_in_field wdpa_df field field_allowed_values condition_field condition_crit return_pid)"

definition invalid_desig_type_regional :: "dataframe \<Rightarrow> bool \<Rightarrow> outcome \<times> dataframe" where
  "invalid_desig_type_regional wdpa_df return_pid =
     (let field = DESIG_TYPE;
          field_allowed_values = [Some ''Regional''];
          condition_field = Some DESIG_ENG;
          condition_crit = [Some ''Baltic Sea Protected Area (HELCOM)'',
                           Some ''Specially Protected Area (Cartagena Convention)'',
                           Some ''Marine Protected Area (CCAMLR)'',
                           Some ''Marine Protected Area (OSPAR)'',
                           Some ''Site of Community Importance (Habitats Directive)'',
                           Some ''Special Protection Area (Birds Directive)'',
                           Some ''Specially Protected Areas of Mediterranean Importance (Barcelona Convention)'']
      in invalid_value_in_field wdpa_df field field_allowed_values condition_field condition_crit return_pid)"

text \<open>The inner function of the next check: every combination of the criteria, joined.\<close>

definition generate_combinations :: "string list" where
  "generate_combinations =
     (let INT_CRIT_ELEMENTS = [''(i)'', ''(ii)'', ''(iii)'', ''(iv)'', ''(v)'', ''(vi)'', ''(vii)'',
                               ''(viii)'', ''(ix)'', ''(x)'']
      in concat (map (\<lambda>length_combi. map concat (combinations INT_CRIT_ELEMENTS length_combi))
                   [1 ..< length INT_CRIT_ELEMENTS + 1]))"

definition invalid_int_crit_desig_eng_ramsar_whs :: "dataframe \<Rightarrow> bool \<Rightarrow> outcome \<times> dataframe" where
  "invalid_int_crit_desig_eng_ramsar_whs wdpa_df return_pid =
     (let field = INT_CRIT;
          field_allowed_values_extra = [''Not Reported''];
          field_allowed_values = map Some (generate_combinations @ field_allowed_values_extra);
          condition_field = Some DESIG_ENG;
          condition_crit = [Some ''Ramsar Site, Wetland of International Importance'',
                            Some ''World Heritage Site (natural or mixed)'']
      in invalid_value_in_field wdpa_df field field_allowed_values condition_field condition_crit return_pid)"

definition invalid_desig_type :: "dataframe \<Rightarrow> bool \<Rightarrow> outcome \<times> dataframe" where
  "invalid_desig_type wdpa_df return_pid =
     (let field = DESIG_TYPE;
          field_allowed_values = [Some ''National'', Some ''Regional'', Some ''International'',
                                   Some ''Not Applicable''];
          condition_field = (None :: (row \<Rightarrow> string option) option);
          condition_crit = ([] :: string option list)
      in invalid_value_in_field wdpa_df field field_allowed_values condition_field condition_crit return_pid)"

definition invalid_iucn_cat :: "dataframe \<Rightarrow> bool \<Rightarrow> outcome \<times> dataframe" where
  "invalid_iucn_cat wdpa_df return_pid =
     (let field = IUCN_CAT;
          field_allowed_values = [Some ''Ia'', Some ''Ib'', Some ''II'', Some ''III'', Some ''IV'',
                                   Some ''V'', Some ''VI'', Some ''Not Reported'',
                                   Some ''Not Applicable'', Some ''Not Assigned''];
          condition_field = (None :: (row \<Rightarrow> string option) option);
          condition_crit = ([] :: string option list)
      in invalid_value_in_field wdpa_df field field_allowed_values condition_field condition_crit return_pid)"

definition invalid_iucn_cat_unesco_whs :: "dataframe \<Rightarrow> bool \<Rightarrow> outcome \<times> dataframe" where
  "invalid_iucn_cat_unesco_whs wdpa_df return_pid =
     (let field = IUCN_CAT;
          field_allowed_values = [Some ''Not Applicable''];
          condition_field = Some DESIG_ENG;
          condition_crit = [Some ''UNESCO-MAB Biosphere Reserve'',
                           Some ''World Heritage Site (natural or mixed)'']
      in invalid_value_in_field wdpa_df field field_allowed_values condition_field condition_crit return_pid)"

definition invalid_marine :: "dataframe \<Rightarrow> bool \<Rightarrow> outcome \<times> dataframe" where
  "invalid_marine wdpa_df return_pid =
     (let field = MARINE;
          field_allowed_values = [Some ''0'', Some ''1'', Some ''2''];
          condition_field = (None :: (row \<Rightarrow> string option) option);
          condition_crit = ([] :: string option list)
      in invalid_value_in_field wdpa_df field field_allowed_values condition_field condition_crit return_pid)"

definition invalid_no_take_marine0 :: "dataframe \<Rightarrow> bool \<Rightarrow> outcome \<times> dataframe" where
  "invalid_no_take_marine0 wdpa_df return_pid =
     (let field = NO_TAKE;
          field_allowed_values = [Some ''Not Applicable''];
          condition_field = Some MARINE;
          condition_crit = [Some ''0'']
      in invalid_value_in_field wdpa_df field field_allowed_values condition_field condition_crit return_pid)"

definition invalid_no_take_marine12 :: "dataframe \<Rightarrow> bool \<Rightarrow> outcome \<times> dataframe" where
  "invalid_no_take_marine12 wdpa_df return_pid =
     (let field = NO_TAKE;
          field_allowed_values = [Some ''All'', Some ''Part'', Some ''None'', Some ''Not Reported''];
          condition_field = Some MARINE;
          condition_crit = [Some ''1'', Some ''2'']
      in invalid_value_in_field wdpa_df field field_allowed_values condition_field condition_crit return_pid)"

text \<open>
  \<open>isin([0])\<close> on a float64 column compares numbers, and the zero with the minus sign is
  the number 0 too: the list of the allowed cells holds both zeros.
\<close>

definition invalid_no_tk_area_marine0 :: "dataframe \<Rightarrow> bool \<Rightarrow> outcome \<times> dataframe" where
  "invalid_no_tk_area_marine0 wdpa_df return_pid =
     (let field = NO_TK_AREA;
          field_allowed_values = [Fin 0, NZero];
          condition_field = Some MARINE;
          condition_crit = [Some ''0'']
      in invalid_value_in_field wdpa_df field field_allowed_values condition_field condition_crit return_pid)"

definition invalid_no_tk_area_no_take :: "dataframe \<Rightarrow> bool \<Rightarrow> outcome \<times> dataframe" where
  "invalid_no_tk_area_no_take wdpa_df return_pid =
     (let field = NO_TK_AREA;
          field_allowed_values = [Fin 0, NZero];
          condition_field = Some NO_TAKE;
          condition_crit = [Some ''Not Applicable'']
      in invalid_value_in_field wdpa_df field field_allowed_values condition_field condition_crit return_pid)"

definition invalid_status :: "dataframe \<Rightarrow> bool \<Rightarrow> outcome \<times> dataframe" where
  "invalid_status wdpa_df return_pid =
     (let field = STATUS;
          field_allowed_values = [Some ''Proposed'', Some ''Designated'', Some ''Established''];
          condition_field = Some DESIG_ENG;
          condition_crit = [Some ''World Heritage Site (natural or mixed)'',
                           Some ''Specially Protected Areas of Mediterranean Importance (Barcelona Convention)'']
      in invalid_value_in_field_isnot wdpa_df field field_allowed_values condition_field condition_crit return_pid)"

definition invalid_status_WH :: "dataframe \<Rightarrow> bool \<Rightarrow> outcome \<times> dataframe" where
  "invalid_status_WH wdpa_df return_pid =
     (let field = STATUS;
          field_allowed_values = [Some ''Proposed'', Some ''Inscribed''];
          condition_field = Some DESIG_ENG;
          condition_crit = [Some ''World Heritage Site (natural or mixed)'']
      in invalid_value_in_field wdpa_df field field_allowed_values condition_field condition_crit return_pid)"

definition invalid_status_Barca :: "dataframe \<Rightarrow> bool \<Rightarrow> outcome \<times> dataframe" where
  "invalid_status_Barca wdpa_df return_pid =
     (let field = STATUS;
          field_allowed_values = [Some ''Proposed'', Some ''Adopted''];
          condition_field = Some DESIG_ENG;
          condition_crit = [Some ''Specially Protected Areas of Mediterranean Importance (Barcelona Convention)'']
      in invalid_value_in_field wdpa_df field field_allowed_values condition_field condition_crit return_pid)"

text \<open>
  The current year, which the next check reads from the clock, is its first argument here.
\<close>

definition invalid_status_yr :: "nat \<Rightarrow> dataframe \<Rightarrow> bool \<Rightarrow> outcome \<times> dataframe" where
  "invalid_status_yr year wdpa_df return_pid =
     (let field = STATUS_YR;
          yearArray = [0] @ [1750 ..< year + 1];
          field_allowed_values = map (\<lambda>x. Some (py_str x)) yearArray;
          condition_field = (None :: (row \<Rightarrow> string option) option);
          condition_crit = ([] :: string option list)
      in invalid_value_in_field wdpa_df field field_allowed_values condition_field condition_crit return_pid)"

definition invalid_gov_type :: "dataframe \<Rightarrow> bool \<Rightarrow> outcome \<times> dataframe" where
  "invalid_gov_type wdpa_df return_pid =
     (let field = GOV_TYPE;
          field_allowed_values = [Some ''Federal or national ministry or agency'',
                                   Some ''Sub-national ministry or agency'',
                                   Some ''Government-delegated management'',
                                   Some ''Transboundary governance'', Some ''Collaborative governance'',
                                   Some ''Joint governance'', Some ''Individual landowners'',
                                   Some ''Non-profit organisations'', Some ''For-profit organisations'',
                                   Some ''Indigenous peoples'', Some ''Local communities'',
                                   Some ''Not Reported''];
          condition_field = (None :: (row \<Rightarrow> string option) option);
          condition_crit = ([] :: string option list)
      in invalid_value_in_field wdpa_df field field_allowed_values condition_field condition_crit return_pid)"

definition invalid_own_type :: "dataframe \<Rightarrow> bool \<Rightarrow> outcome \<times> dataframe" where
  "invalid_own_type wdpa_df return_pid =
     (let field = OWN_TYPE;
          field_allowed_values = [Some ''State'', Some ''Communal'', Some ''Individual landowners'',
                                   Some ''For-profit organisations'', Some ''Non-profit organisations'',
                                   Some ''Joint ownership'', Some ''Multiple ownership'',
                                   Some ''Contested'', Some ''Not Reported''];
          condition_field = (None :: (row \<Rightarrow> string option) option);
          condition_crit = ([] :: string option list)
      in invalid_value_in_field wdpa_df field field_allowed_values condition_field condition_crit return_pid)"

definition invalid_verif :: "dataframe \<Rightarrow> bool \<Rightarrow> outcome \<times> dataframe" where
  "invalid_verif wdpa_df return_pid =
     (let field = VERIF;
          field_allowed_values = [Some ''State Verified'', Some ''Expert Verified'',
                                   Some ''Not Reported''];
          condition_field = (None :: (row \<Rightarrow> string option) option);
          condition_crit = ([] :: string option list)
      in invalid_value_in_field wdpa_df field field_allowed_values condition_field condition_crit return_pid)"

subsection \<open>Country codes\<close>

text \<open>
  The reference codes: the \<open>alpha-3\<close> column of the downloaded country list, which is
  not part of the sources and is a parameter here, followed by \<open>ABNJ\<close>.
\<close>

definition iso3 :: "string list \<Rightarrow> string list" where
  "iso3 alpha_3 = alpha_3 @ [''ABNJ'']"

fun correct_iso3_loop :: "string list \<Rightarrow> string list \<Rightarrow> bool" where
  "correct_iso3_loop codes [] = True"
| "correct_iso3_loop codes (each # rest) =
     (if each \<in> set codes then correct_iso3_loop codes rest else False)"

text \<open>
  The inner function \<open>_correct_iso3\<close>. A missing value is a float and has no \<open>split\<close>: the
  call raises. On a table without records, \<open>apply\<close> returns an empty column of objects,
  which is no boolean mask: indexing the DataFrame with it selects no column, and the
  lookup of \<open>WDPA_PID\<close> in the result raises a \<open>KeyError\<close>.
\<close>

definition correct_iso3 :: "string list \<Rightarrow> string option \<Rightarrow> error + bool" where
  "correct_iso3 codes field =
     (case field of
        None \<Rightarrow> Inl AttributeError
      | Some s \<Rightarrow> Inr (correct_iso3_loop codes (py_split CHR '';'' s)))"

definition invalid_country_codes ::
  "string list \<Rightarrow> dataframe \<Rightarrow> (row \<Rightarrow> string option) \<Rightarrow> bool
     \<Rightarrow> (error + outcome) \<times> dataframe" where
  "invalid_country_codes alpha_3 wdpa_df field return_pid =
     (case series_apply (correct_iso3 (iso3 alpha_3)) (map field (rows wdpa_df)) of
        Inl e \<Rightarrow> (Inl e, wdpa_df)
      | Inr correct \<Rightarrow>
          if correct = [] then (Inl KeyError, wdpa_df)
          else
            (let invalid_wdpa_pid = map WDPA_PID (select_rows (map Not correct) (rows wdpa_df))
             in (Inr (if return_pid then Pids invalid_wdpa_pid
                      else Flag (length invalid_wdpa_pid > 0)),
                 wdpa_df)))"

definition invalid_parent_iso3 ::
  "string list \<Rightarrow> dataframe \<Rightarrow> bool \<Rightarrow> (error + outcome) \<times> dataframe" where
  "invalid_parent_iso3 alpha_3 wdpa_df return_pid =
     invalid_country_codes alpha_3 wdpa_df PARENT_ISO3 return_pid"

definition invalid_iso3 ::
  "string list \<Rightarrow> dataframe \<Rightarrow> bool \<Rightarrow> (error + outcome) \<times> dataframe" where
  "invalid_iso3 alpha_3 wdpa_df return_pid =
     invalid_country_codes alpha_3 wdpa_df ISO3 return_pid"

definition invalid_status_desig_type :: "dataframe \<Rightarrow> bool \<Rightarrow> outcome \<times> dataframe" where
  "invalid_status_desig_type wdpa_df return_pid =
     (let field = STATUS;
          field_allowed_values = [Some ''Established''];
          condition_field = Some DESIG_TYPE;
          condition_crit = [Some ''Not Applicable'']
      in invalid_value_in_field wdpa_df field field_allowed_values condition_field condition_crit return_pid)"

section \<open>Invalid area sizes\<close>

text \<open>
  Without both field names the factory function raises. The threshold \<open>1.0001\<close> is a
  float64 number, and the product with it is rounded.
\<close>

definition area_invalid_size ::
  "arith \<Rightarrow> dataframe \<Rightarrow> (row \<Rightarrow> fl) option \<Rightarrow> (row \<Rightarrow> fl) option \<Rightarrow> bool
     \<Rightarrow> (error + outcome) \<times> dataframe" where
  "area_invalid_size ar wdpa_df field_small_area field_large_area return_pid =
     (let size_threshold = Fin float_1_0001
      in case (field_small_area, field_large_area) of
           (Some small_area, Some large_area) \<Rightarrow>
             (let invalid_wdpa_pid = map WDPA_PID (select_rows
                    (map (\<lambda>r. fl_gt (small_area r) (fl_mul ar size_threshold (large_area r)))
                       (rows wdpa_df))
                    (rows wdpa_df))
              in (Inr (if return_pid then Pids invalid_wdpa_pid
                       else Flag (length invalid_wdpa_pid > 0)),
                  wdpa_df))
         | _ \<Rightarrow> (Inl Exception, wdpa_df))"

definition area_invalid_no_tk_area_rep_m_area ::
  "arith \<Rightarrow> dataframe \<Rightarrow> bool \<Rightarrow> (error + outcome) \<times> dataframe" where
  "area_invalid_no_tk_area_rep_m_area ar wdpa_df return_pid =
     (let field_small_area = Some NO_TK_AREA;
          field_large_area = Some REP_M_AREA
      in area_invalid_size ar wdpa_df field_small_area field_large_area return_pid)"

definition area_invalid_no_tk_area_gis_m_area ::
  "arith \<Rightarrow> dataframe \<Rightarrow> bool \<Rightarrow> (error + outcome) \<times> dataframe" where
  "area_invalid_no_tk_area_gis_m_area ar wdpa_df return_pid =
     (let field_small_area = Some NO_TK_AREA;
          field_large_area = Some GIS_M_AREA
      in area_invalid_size ar wdpa_df field_small_area field_large_area return_pid)"

definition area_invalid_gis_m_area_gis_area ::
  "arith \<Rightarrow> dataframe \<Rightarrow> bool \<Rightarrow> (error + outcome) \<times> dataframe" where
  "area_invalid_gis_m_area_gis_area ar wdpa_df return_pid =
     (let field_small_area = Some GIS_M_AREA;
          field_large_area = Some GIS_AREA
      in area_invalid_size ar wdpa_df field_small_area field_large_area return_pid)"

definition area_invalid_rep_m_area_rep_area ::
  "arith \<Rightarrow> dataframe \<Rightarrow> bool \<Rightarrow> (error + outcome) \<times> dataframe" where
  "area_invalid_rep_m_area_rep_area ar wdpa_df return_pid =
     (let field_small_area = Some REP_M_AREA;
          field_large_area = Some REP_AREA
      in area_invalid_size ar wdpa_df field_small_area field_large_area return_pid)"

section \<open>Forbidden characters\<close>

text \<open>
  \<open>wdpa_df = wdpa_df.dropna()\<close> binds the name to the DataFrame of the complete records;
  the check goes on with that one. The accessor \<open>.str\<close> raises on a column that is not a
  column of strings, which is what a column of a table with records is when every value
  of it is missing (it is then a float64 column of NaN).
\<close>

definition forbidden_character ::
  "dataframe \<Rightarrow> (row \<Rightarrow> string option) \<Rightarrow> bool \<Rightarrow> (error + outcome) \<times> dataframe" where
  "forbidden_character wdpa_df check_field return_pid =
     (let forbidden_characters =
            [CHR ''<'', CHR ''>'', CHR ''?'', CHR ''*'', CHR 0x0D, CHR 0x0A];
          complete = dropna wdpa_df
      in if rows wdpa_df \<noteq> [] \<and> list_all (\<lambda>r. check_field r = None) (rows wdpa_df)
         then (Inl AttributeError, wdpa_df)
         else
           (case bool_mask (map (str_contains forbidden_characters)
                              (map check_field (rows complete))) of
              Inl e \<Rightarrow> (Inl e, wdpa_df)
            | Inr keep \<Rightarrow>
                (let invalid_wdpa_pid = map WDPA_PID (select_rows keep (rows complete))
                 in (Inr (if return_pid then Pids invalid_wdpa_pid
                          else Flag (length invalid_wdpa_pid > 0)),
                     wdpa_df))))"

definition forbidden_character_name :: "dataframe \<Rightarrow> bool \<Rightarrow> (error + outcome) \<times> dataframe" where
  "forbidden_character_name wdpa_df return_pid =
     (let check_field = NAME
      in forbidden_character wdpa_df check_field return_pid)"

definition forbidden_character_orig_name :: "dataframe \<Rightarrow> bool \<Rightarrow> (error + outcome) \<times> dataframe" where
  "forbidden_character_orig_name wdpa_df return_pid =
     (let check_field = ORIG_NAME
      in forbidden_character wdpa_df check_field return_pid)"

definition forbidden_character_desig :: "dataframe \<Rightarrow> bool \<Rightarrow> (error + outcome) \<times> dataframe" where
  "forbidden_character_desig wdpa_df return_pid =
     (let check_field = DESIG
      in forbidden_character wdpa_df check_field return_pid)"

definition forbidden_character_desig_eng :: "dataframe \<Rightarrow> bool \<Rightarrow> (error + outcome) \<times> dataframe" where
  "forbidden_character_desig_eng wdpa_df return_pid =
     (let check_field = DESIG_ENG
      in forbidden_character wdpa_df check_field return_pid)"

definition forbidden_character_mang_auth :: "dataframe \<Rightarrow> bool \<Rightarrow> (error + outcome) \<times> dataframe" where
  "forbidden_character_mang_auth wdpa_df return_pid =
     (let check_field = MANG_AUTH
      in forbidden_character wdpa_df check_field return_pid)"

definition forbidden_character_mang_plan :: "dataframe \<Rightarrow> bool \<Rightarrow> (error + outcome) \<times> dataframe" where
  "forbidden_character_mang_plan wdpa_df return_pid =
     (let check_field = MANG_PLAN
      in forbidden_character wdpa_df check_field return_pid)"

definition forbidden_character_sub_loc :: "dataframe \<Rightarrow> bool \<Rightarrow> (error + outcome) \<times> dataframe" where
  "forbidden_character_sub_loc wdpa_df return_pid =
     (let check_field = SUB_LOC
      in forbidden_character wdpa_df check_field return_pid)"

section \<open>Missing values\<close>

definition nan_present :: "dataframe \<Rightarrow> (row \<Rightarrow> 'a option) \<Rightarrow> bool \<Rightarrow> outcome \<times> dataframe" where
  "nan_present wdpa_df check_field return_pid =
     (let invalid_wdpa_pid = map WDPA_PID (select_rows
            (map (\<lambda>r. check_field r = None) (rows wdpa_df)) (rows wdpa_df))
      in (if return_pid then Pids invalid_wdpa_pid
          else Flag (length invalid_wdpa_pid > 0),
          wdpa_df))"

definition ivd_nan_present_name :: "dataframe \<Rightarrow> bool \<Rightarrow> outcome \<times> dataframe" where
  "ivd_nan_present_name wdpa_df return_pid =
     (let check_field = NAME
      in nan_present wdpa_df check_field return_pid)"

definition ivd_nan_present_orig_name :: "dataframe \<Rightarrow> bool \<Rightarrow> outcome \<times> dataframe" where
  "ivd_nan_present_orig_name wdpa_df return_pid =
     (let check_field = ORIG_NAME
      in nan_present wdpa_df check_field return_pid)"

definition ivd_nan_present_desig :: "dataframe \<Rightarrow> bool \<Rightarrow> outcome \<times> dataframe" where
  "ivd_nan_present_desig wdpa_df return_pid =
     (let check_field = DESIG
      in nan_present wdpa_df check_field return_pid)"

definition ivd_nan_present_desig_eng :: "dataframe \<Rightarrow> bool \<Rightarrow> outcome \<times> dataframe" where
  "ivd_nan_present_desig_eng wdpa_df return_pid =
     (let check_field = DESIG_ENG
      in nan_present wdpa_df check_field return_pid)"

definition ivd_nan_present_mang_auth :: "dataframe \<Rightarrow> bool \<Rightarrow> outcome \<times> dataframe" where
  "ivd_nan_present_mang_auth wdpa_df return_pid =
     (let check_field = MANG_AUTH
      in nan_present wdpa_df check_field return_pid)"

definition ivd_nan_present_mang_plan :: "dataframe \<Rightarrow> bool \<Rightarrow> outcome \<times> dataframe" where
  "ivd_nan_present_mang_plan wdpa_df return_pid =
     (let check_field = MANG_PLAN
      in nan_present wdpa_df check_field return_pid)"

definition ivd_nan_present_sub_loc :: "dataframe \<Rightarrow> bool \<Rightarrow> outcome \<times> dataframe" where
  "ivd_nan_present_sub_loc wdpa_df return_pid =
     (let check_field = SUB_LOC
      in nan_present wdpa_df check_field return_pid)"

definition ivd_nan_present_metadataid :: "dataframe \<Rightarrow> bool \<Rightarrow> outcome \<times> dataframe" where
  "ivd_nan_present_metadataid wdpa_df return_pid =
     (let check_field = METADATAID
      in nan_present wdpa_df check_field return_pid)"


section \<open>The lists of checks\<close>

text \<open>
  The lists hold every check under its name. An entry is a Python function of a DataFrame
  and \<open>return_pid\<close>: it returns or raises, and it leaves the DataFrame of its caller in
  some state. A check without a \<open>raise\<close> on any path is entered with \<open>no_raise\<close>, which
  says no more than that its result is a returned one.
\<close>

type_synonym check = "dataframe \<Rightarrow> bool \<Rightarrow> (error + outcome) \<times> dataframe"

definition no_raise :: "(dataframe \<Rightarrow> bool \<Rightarrow> outcome \<times> dataframe) \<Rightarrow> check" where
  "no_raise f =
     (\<lambda>wdpa_df return_pid. (Inr (fst (f wdpa_df return_pid)), snd (f wdpa_df return_pid)))"

text \<open>
  The arithmetic, the downloaded codes and the current year, which the module takes from
  its environment, are the arguments of the lists.
\<close>

definition core_checks :: "arith \<Rightarrow> string list \<Rightarrow> nat \<Rightarrow> (string \<times> check) list" where
  "core_checks ar alpha_3 year =
     [(''duplicate_wdpa_pid'', no_raise duplicate_wdpa_pid),
      (''tiny_rep_area'', no_raise area_invalid_rep_area),
      (''zero_rep_m_area_marine12'', no_raise area_invalid_rep_m_area_marine12),
      (''ivd_rep_m_area_gt_rep_area'', area_invalid_rep_m_area_rep_area ar),
      (''ivd_no_tk_area_gt_rep_m_area'', area_invalid_no_tk_area_rep_m_area ar),
      (''ivd_no_tk_area_rep_m_area'', no_raise invalid_no_take_no_tk_area_rep_m_area),
      (''ivd_int_crit_desig_eng_other'', no_raise invalid_int_crit_desig_eng_other),
      (''ivd_desig_eng_iucn_cat_other'', no_raise invalid_desig_eng_iucn_cat_other),
      (''dif_name_same_id'', no_raise inconsistent_name_same_wdpaid),
      (''dif_orig_name_same_id'', no_raise inconsistent_orig_name_same_wdpaid),
      (''ivd_dif_desig_same_id'', no_raise inconsistent_desig_same_wdpaid),
      (''ivd_dif_desig_eng_same_id'', no_raise inconsistent_desig_eng_same_wdpaid),
      (''dif_desig_type_same_id'', no_raise inconsistent_desig_type_same_wdpaid),
      (''dif_int_crit_same_id'', no_raise inconsistent_int_crit_same_wdpaid),
      (''dif_no_take_same_id'', no_raise inconsistent_no_take_same_wdpaid),
      (''dif_status_same_id'', no_raise inconsistent_status_same_wdpaid),
      (''dif_status_yr_same_id'', no_raise inconsistent_status_yr_same_wdpaid),
      (''dif_gov_type_same_id'', no_raise inconsistent_gov_type_same_wdpaid),
      (''dif_own_type_same_id'', no_raise inconsistent_own_type_same_wdpaid),
      (''dif_mang_auth_same_id'', no_raise inconsistent_mang_auth_same_wdpaid),
      (''dif_mang_plan_same_id'', no_raise inconsistent_mang_plan_same_wdpaid),
      (''ivd_dif_verif_same_id'', no_raise inconsistent_verif_same_wdpaid),
      (''ivd_dif_metadataid_same_id'', no_raise inconsistent_metadataid_same_wdpaid),
      (''ivd_dif_sub_loc_same_id'', no_raise inconsistent_sub_loc_same_wdpaid),
      (''ivd_dif_parent_iso3_same_id'', no_raise inconsistent_parent_iso3_same_wdpaid),
      (''ivd_dif_iso3_same_id'', no_raise inconsistent_iso3_same_wdpaid),
      (''ivd_pa_def'', no_raise invalid_pa_def),
      (''ivd_desig_eng_international'', no_raise invalid_desig_eng_international),
      (''ivd_desig_type_international'', no_raise invalid_desig_type_international),
      (''ivd_desig_eng_regional'', no_raise invalid_desig_eng_regional),
      (''ivd_desig_type_regional'', no_raise invalid_desig_type_regional),
      (''ivd_int_crit'', no_raise invalid_int_crit_desig_eng_ramsar_whs),
      (''ivd_desig_type'', no_raise invalid_desig_type),
      (''ivd_iucn_cat'', no_raise invalid_iucn_cat),
      (''ivd_iucn_cat_unesco_whs'', no_raise invalid_iucn_cat_unesco_whs),
      (''ivd_marine'', no_raise invalid_marine),
      (''check_no_take_marine0'', no_raise invalid_no_take_marine0),
      (''ivd_no_take_marine12'', no_raise invalid_no_take_marine12),
      (''check_no_tk_area_marine0'', no_raise invalid_no_tk_area_marine0),
      (''ivd_no_tk_area_no_take'', no_raise invalid_no_tk_area_no_take),
      (''ivd_status'', no_raise invalid_status),
      (''ivd_status_WH'', no_raise invalid_status_WH),
      (''ivd_status_BarcelonaConv'', no_raise invalid_status_Barca),
      (''ivd_status_yr'', no_raise (invalid_status_yr year)),
      (''ivd_gov_type'', no_raise invalid_gov_type),
      (''ivd_own_type'', no_raise invalid_own_type),
      (''ivd_verif'', no_raise invalid_verif),
      (''check_parent_iso3'', invalid_parent_iso3 alpha_3),
      (''check_iso3'', invalid_iso3 alpha_3),
      (''ivd_status_desig_type'', no_raise invalid_status_desig_type),
      (''ivd_character_name'', forbidden_character_name),
      (''ivd_character_orig_name'', forbidden_character_orig_name),
      (''ivd_character_desig'', forbidden_character_desig),
      (''ivd_character_desig_eng'', forbidden_character_desig_eng),
      (''ivd_character_mang_auth'', forbidden_character_mang_auth),
      (''ivd_character_mang_plan'', forbidden_character_mang_plan),
      (''ivd_character_sub_loc'', forbidden_character_sub_loc),
      (''ivd_nan_present_name'', no_raise ivd_nan_present_name),
      (''ivd_nan_present_orig_name'', no_raise ivd_nan_present_orig_name),
      (''ivd_nan_present_desig'', no_raise ivd_nan_present_desig),
      (''ivd_nan_present_desig_eng'', no_raise ivd_nan_present_desig_eng),
      (''ivd_nan_present_mang_auth'', no_raise ivd_nan_present_mang_auth),
      (''ivd_nan_present_mang_plan'', no_raise ivd_nan_present_mang_plan),
      (''ivd_nan_present_sub_loc'', no_raise ivd_nan_present_sub_loc),
      (''ivd_nan_present_metadataid'', no_raise ivd_nan_present_metadataid)]"

definition area_checks :: "arith \<Rightarrow> (string \<times> check) list" where
  "area_checks ar =
     [(''gis_area_gt_rep_area'', no_raise (area_invalid_too_large_gis ar)),
      (''rep_area_gt_gis_area'', no_raise (area_invalid_too_large_rep ar)),
      (''gis_m_area_gt_rep_m_area'', no_raise (area_invalid_too_large_gis_m ar)),
      (''rep_m_area_gt_gis_m_area'', no_raise (area_invalid_too_large_rep_m ar)),
      (''tiny_gis_area'', no_raise area_invalid_gis_area),
      (''no_tk_area_gt_gis_m_area'', area_invalid_no_tk_area_gis_m_area ar),
      (''ivd_gis_m_area_gt_gis_area'', area_invalid_gis_m_area_gis_area ar),
      (''zero_gis_m_area_marine12'', no_raise area_invalid_gis_m_area_marine12),
      (''ivd_marine_designation'', no_raise (area_invalid_marine ar))]"

definition poly_checks :: "arith \<Rightarrow> string list \<Rightarrow> nat \<Rightarrow> (string \<times> check) list" where
  "poly_checks ar alpha_3 year = core_checks ar alpha_3 year @ area_checks ar"

definition pt_checks :: "arith \<Rightarrow> string list \<Rightarrow> nat \<Rightarrow> (string \<times> check) list" where
  "pt_checks ar alpha_3 year = core_checks ar alpha_3 year"
section \<open>The specification's reading of the checks\<close>

text \<open>
  The definitions of this section follow the words of the specification, not the code;
  the theorems below compare the two. The numbers of the specification are the float64
  numbers of the table, and its operations the operations of the arithmetic \<open>ar\<close>.
\<close>

subsection \<open>The outcome of a rule\<close>

text \<open>
  The offending records have their identifiers reported, or in the boolean mode the fact
  that there is one.
\<close>

definition spec_outcome :: "bool \<Rightarrow> row list \<Rightarrow> outcome" where
  "spec_outcome return_pid offending =
     (if return_pid then Pids (map WDPA_PID offending) else Flag (offending \<noteq> []))"

subsection \<open>Statistical area plausibility\<close>







subsection \<open>Marine classification\<close>

text \<open>
  The band of a ratio of marine to total GIS area: at most 0.1 is band 0, strictly between
  0.1 and 0.9 is band 1, at least 0.9 is band 2; an undefined ratio has no band.
\<close>

definition spec_marine_band :: "fl \<Rightarrow> string option" where
  "spec_marine_band ratio =
     (case ratio of
        NaN \<Rightarrow> None
      | NInf \<Rightarrow> Some ''0''
      | NZero \<Rightarrow> Some ''0''
      | PInf \<Rightarrow> Some ''2''
      | Fin x \<Rightarrow> Some (if x \<le> float_0_1 then ''0'' else if x < float_0_9 then ''1'' else ''2''))"

text \<open>
  The records to flag: the band of the ratio is not the declared \<open>MARINE\<close> value, which
  no band is either.
\<close>

definition spec_marine :: "arith \<Rightarrow> row list \<Rightarrow> row list" where
  "spec_marine ar rs =
     filter (\<lambda>r. spec_marine_band (fl_div ar (GIS_M_AREA r) (GIS_AREA r)) = None
               \<or> spec_marine_band (fl_div ar (GIS_M_AREA r) (GIS_AREA r)) \<noteq> MARINE r) rs"

subsection \<open>Sample records\<close>

text \<open>A complete record, and the table as the loader hands it over (no added column).\<close>

definition sample_row :: row where
  "sample_row =
     \<lparr>WDPAID = Some 1, WDPA_PID = Some ''1'', PA_DEF = Some ''1'', NAME = Some ''Park'',
      ORIG_NAME = Some ''Park'', DESIG = Some ''National Park'',
      DESIG_ENG = Some ''National Park'', DESIG_TYPE = Some ''National'',
      IUCN_CAT = Some ''II'', INT_CRIT = Some ''Not Applicable'', MARINE = Some ''0'',
      REP_M_AREA = Fin 0, GIS_M_AREA = Fin 0, REP_AREA = Fin 10, GIS_AREA = Fin 10,
      NO_TAKE = Some ''Not Applicable'', NO_TK_AREA = Fin 0, STATUS = Some ''Designated'',
      STATUS_YR = Some ''1990'', GOV_TYPE = Some ''Federal or national ministry or agency'',
      OWN_TYPE = Some ''State'', MANG_AUTH = Some ''Agency'', MANG_PLAN = Some ''Not Reported'',
      VERIF = Some ''State Verified'', METADATAID = Some 1, SUB_LOC = Some ''Not Reported'',
      PARENT_ISO3 = Some ''USA'', ISO3 = Some ''USA''\<rparr>"

definition table_of :: "row list \<Rightarrow> dataframe" where
  "table_of rs = \<lparr>rows = rs, marine_GIS_proportion = None, marine_GIS_value = None\<rparr>"

text \<open>
  An arithmetic for the examples. Their areas are small whole numbers, and every sum,
  difference, product, quotient and root that the checks take of them is a whole number
  or a half: float64 holds all of these exactly, so that nothing is rounded and the order
  of a sum is without effect.
\<close>

definition exact_arith :: arith where
  "exact_arith =
     \<lparr>rnd = Fin, nansum = (\<lambda>xs. Fin (sum_list (map fin (dropna_values xs))))\<rparr>"
section \<open>Auxiliary facts\<close>

subsection \<open>Arithmetic\<close>

















subsection \<open>Selections\<close>

lemma select_rows_map: "select_rows (map P xs) xs = filter P xs"
  by (induction xs) (auto simp: select_rows_def)


lemma select_rows_map2_map:
  "select_rows (map2 P (map f xs) (map g xs)) xs = filter (\<lambda>r. P (f r) (g r)) xs"
  by (induction xs) (auto simp: select_rows_def)

lemma marine_select:
  "select_rows (map2 obj_ne (map f (map g xs)) (map h xs)) xs
   = filter (\<lambda>r. obj_ne (f (g r)) (h r)) xs"
  by (induction xs) (auto simp: select_rows_def)

lemma select_isin:
  "select_rows (map Not (isin (map f xs) S)) xs = filter (\<lambda>r. f r \<notin> set S) xs"
  by (induction xs) (auto simp: select_rows_def isin_def)

lemma select_isin_cond:
  "select_rows (map2 (\<and>) (map Not (isin (map f xs) S)) (isin (map g xs) C)) xs
   = filter (\<lambda>r. f r \<notin> set S \<and> g r \<in> set C) xs"
  by (induction xs) (auto simp: select_rows_def isin_def)

lemma select_not_map:
  "select_rows (map Not (map P (map g xs))) xs = filter (\<lambda>r. \<not> P (g r)) xs"
  by (induction xs) (auto simp: select_rows_def)

lemma obj_ne_iff: "obj_ne a b \<longleftrightarrow> a = None \<or> a \<noteq> b"
  by (auto simp: obj_ne_def split: option.splits)

subsection \<open>The statistical checks\<close>











subsection \<open>The DataFrame that a check leaves\<close>

text \<open>
  The factory functions and the hardcoded checks other than \<open>area_invalid_marine\<close> assign
  to no column: the DataFrame of the caller is, when they return or raise, the one that
  they were given.
\<close>

named_theorems frame \<open>the checks that leave the DataFrame as it was\<close>

lemma frame_inconsistent_fields_same_wdpaid [frame]:
  "snd (inconsistent_fields_same_wdpaid wdpa_df check_field return_pid) = wdpa_df"
  by (simp add: inconsistent_fields_same_wdpaid_def Let_def)

lemma frame_invalid_value_in_field [frame]:
  "snd (invalid_value_in_field wdpa_df field field_allowed_values condition_field condition_crit
          return_pid) = wdpa_df"
  by (simp add: invalid_value_in_field_def Let_def)

lemma frame_invalid_value_in_field_isnot [frame]:
  "snd (invalid_value_in_field_isnot wdpa_df field field_allowed_values condition_field
          condition_crit return_pid) = wdpa_df"
  by (simp add: invalid_value_in_field_isnot_def Let_def)

lemma frame_invalid_country_codes [frame]:
  "snd (invalid_country_codes alpha_3 wdpa_df field return_pid) = wdpa_df"
  by (simp add: invalid_country_codes_def Let_def split: sum.split)

lemma frame_area_invalid_size [frame]:
  "snd (area_invalid_size ar wdpa_df field_small_area field_large_area return_pid) = wdpa_df"
  by (simp add: area_invalid_size_def Let_def split: option.split)

lemma frame_forbidden_character [frame]:
  "snd (forbidden_character wdpa_df check_field return_pid) = wdpa_df"
  by (simp add: forbidden_character_def Let_def split: sum.split)

lemma frame_nan_present [frame]:
  "snd (nan_present wdpa_df check_field return_pid) = wdpa_df"
  by (simp add: nan_present_def Let_def)

lemma frame_duplicate_wdpa_pid [frame]:
  "snd (duplicate_wdpa_pid wdpa_df return_pid) = wdpa_df"
  by (simp add: duplicate_wdpa_pid_def Let_def)

lemma frame_area_invalid_too_large_gis [frame]:
  "snd (area_invalid_too_large_gis ar wdpa_df return_pid) = wdpa_df"
  by (simp add: area_invalid_too_large_gis_def Let_def)

lemma frame_area_invalid_too_large_rep [frame]:
  "snd (area_invalid_too_large_rep ar wdpa_df return_pid) = wdpa_df"
  by (simp add: area_invalid_too_large_rep_def Let_def)

lemma frame_area_invalid_too_large_gis_m [frame]:
  "snd (area_invalid_too_large_gis_m ar wdpa_df return_pid) = wdpa_df"
  by (simp add: area_invalid_too_large_gis_m_def Let_def)

lemma frame_area_invalid_too_large_rep_m [frame]:
  "snd (area_invalid_too_large_rep_m ar wdpa_df return_pid) = wdpa_df"
  by (simp add: area_invalid_too_large_rep_m_def Let_def)

lemma frame_area_invalid_gis_area [frame]:
  "snd (area_invalid_gis_area wdpa_df return_pid) = wdpa_df"
  by (simp add: area_invalid_gis_area_def Let_def)

lemma frame_area_invalid_rep_area [frame]:
  "snd (area_invalid_rep_area wdpa_df return_pid) = wdpa_df"
  by (simp add: area_invalid_rep_area_def Let_def)

lemma frame_area_invalid_rep_m_area_marine12 [frame]:
  "snd (area_invalid_rep_m_area_marine12 wdpa_df return_pid) = wdpa_df"
  by (simp add: area_invalid_rep_m_area_marine12_def Let_def)

lemma frame_area_invalid_gis_m_area_marine12 [frame]:
  "snd (area_invalid_gis_m_area_marine12 wdpa_df return_pid) = wdpa_df"
  by (simp add: area_invalid_gis_m_area_marine12_def Let_def)

lemma frame_invalid_no_take_no_tk_area_rep_m_area [frame]:
  "snd (invalid_no_take_no_tk_area_rep_m_area wdpa_df return_pid) = wdpa_df"
  by (simp add: invalid_no_take_no_tk_area_rep_m_area_def Let_def)

lemma frame_invalid_int_crit_desig_eng_other [frame]:
  "snd (invalid_int_crit_desig_eng_other wdpa_df return_pid) = wdpa_df"
  by (simp add: invalid_int_crit_desig_eng_other_def Let_def)

lemma frame_invalid_desig_eng_iucn_cat_other [frame]:
  "snd (invalid_desig_eng_iucn_cat_other wdpa_df return_pid) = wdpa_df"
  by (simp add: invalid_desig_eng_iucn_cat_other_def Let_def)

text \<open>The checks that a factory function makes, by their definitions.\<close>

lemmas check_instances =
  inconsistent_name_same_wdpaid_def inconsistent_orig_name_same_wdpaid_def
  inconsistent_desig_same_wdpaid_def inconsistent_desig_eng_same_wdpaid_def
  inconsistent_desig_type_same_wdpaid_def inconsistent_int_crit_same_wdpaid_def
  inconsistent_no_take_same_wdpaid_def inconsistent_status_same_wdpaid_def
  inconsistent_status_yr_same_wdpaid_def inconsistent_gov_type_same_wdpaid_def
  inconsistent_own_type_same_wdpaid_def inconsistent_mang_auth_same_wdpaid_def
  inconsistent_mang_plan_same_wdpaid_def inconsistent_verif_same_wdpaid_def
  inconsistent_metadataid_same_wdpaid_def inconsistent_sub_loc_same_wdpaid_def
  inconsistent_parent_iso3_same_wdpaid_def inconsistent_iso3_same_wdpaid_def invalid_pa_def_def
  invalid_desig_eng_international_def invalid_desig_type_international_def
  invalid_desig_eng_regional_def invalid_desig_type_regional_def
  invalid_int_crit_desig_eng_ramsar_whs_def invalid_desig_type_def invalid_iucn_cat_def
  invalid_iucn_cat_unesco_whs_def invalid_marine_def invalid_no_take_marine0_def
  invalid_no_take_marine12_def invalid_no_tk_area_marine0_def invalid_no_tk_area_no_take_def
  invalid_status_def invalid_status_WH_def invalid_status_Barca_def invalid_status_yr_def
  invalid_gov_type_def invalid_own_type_def invalid_verif_def invalid_parent_iso3_def
  invalid_iso3_def invalid_status_desig_type_def area_invalid_no_tk_area_rep_m_area_def
  area_invalid_no_tk_area_gis_m_area_def area_invalid_gis_m_area_gis_area_def
  area_invalid_rep_m_area_rep_area_def forbidden_character_name_def
  forbidden_character_orig_name_def forbidden_character_desig_def
  forbidden_character_desig_eng_def forbidden_character_mang_auth_def
  forbidden_character_mang_plan_def forbidden_character_sub_loc_def ivd_nan_present_name_def
  ivd_nan_present_orig_name_def ivd_nan_present_desig_def ivd_nan_present_desig_eng_def
  ivd_nan_present_mang_auth_def ivd_nan_present_mang_plan_def ivd_nan_present_sub_loc_def
  ivd_nan_present_metadataid_def

lemma frame_core_checks:
  "(name, check) \<in> set (core_checks ar alpha_3 year) \<Longrightarrow> snd (check wdpa_df return_pid) = wdpa_df"
proof -
  have "\<forall>(n, c) \<in> set (core_checks ar alpha_3 year). snd (c wdpa_df return_pid) = wdpa_df"
    unfolding core_checks_def no_raise_def check_instances Let_def
    by (simp add: frame)
  then show "(name, check) \<in> set (core_checks ar alpha_3 year)
             \<Longrightarrow> snd (check wdpa_df return_pid) = wdpa_df"
    by auto
qed

lemma frame_area_checks:
  "(name, check) \<in> set (area_checks ar) \<Longrightarrow> name \<noteq> ''ivd_marine_designation''
   \<Longrightarrow> snd (check wdpa_df return_pid) = wdpa_df"
proof -
  have "\<forall>(n, c) \<in> set (area_checks ar).
          n \<noteq> ''ivd_marine_designation'' \<longrightarrow> snd (c wdpa_df return_pid) = wdpa_df"
    unfolding area_checks_def no_raise_def check_instances Let_def
    by (simp add: frame)
  then show "(name, check) \<in> set (area_checks ar) \<Longrightarrow> name \<noteq> ''ivd_marine_designation''
             \<Longrightarrow> snd (check wdpa_df return_pid) = wdpa_df"
    by auto
qed

subsection \<open>The marine check\<close>

lemma assign_marine_gis_value_spec:
  "assign_marine_gis_value (Fin float_0_1) (Fin float_0_9) q = spec_marine_band q"
  by (cases q)
     (auto simp: assign_marine_gis_value_def spec_marine_band_def fl_le_def fl_ge_def fl_eq_def
                 is_zero_def float_0_1_def float_0_9_def)

lemma area_invalid_marine_rows:
  "fst (area_invalid_marine ar df return_pid) = spec_outcome return_pid (spec_marine ar (rows df))"
proof -
  have flagged: "spec_marine ar (rows df)
      = filter (\<lambda>r. obj_ne (assign_marine_gis_value (Fin float_0_1) (Fin float_0_9)
                              (fl_div ar (GIS_M_AREA r) (GIS_AREA r))) (MARINE r)) (rows df)"
    by (simp add: spec_marine_def assign_marine_gis_value_spec obj_ne_iff)
  show ?thesis
    unfolding flagged
    by (simp add: area_invalid_marine_def Let_def marine_select spec_outcome_def del: map_map)
qed

lemma area_invalid_marine_table:
  "snd (area_invalid_marine ar df return_pid) =
     df\<lparr>marine_GIS_proportion :=
          Some (map (\<lambda>r. fl_div ar (GIS_M_AREA r) (GIS_AREA r)) (rows df)),
        marine_GIS_value :=
          Some (map (\<lambda>r. spec_marine_band (fl_div ar (GIS_M_AREA r) (GIS_AREA r))) (rows df))\<rparr>"
  by (simp add: area_invalid_marine_def Let_def assign_marine_gis_value_spec comp_def)

subsection \<open>The membership check\<close>

text \<open>The records that \<open>invalid_value_in_field\<close> selects, as one filter.\<close>

lemma invalid_value_in_field_rows:
  "fst (invalid_value_in_field df field S cf cc return_pid) =
     (if return_pid then
        Pids (map WDPA_PID
          (filter (\<lambda>r. field r \<notin> set S \<and>
                        (case cf of Some c \<Rightarrow> cc = [] \<or> c r \<in> set cc | None \<Rightarrow> True))
             (rows df)))
      else
        Flag (filter (\<lambda>r. field r \<notin> set S \<and>
                        (case cf of Some c \<Rightarrow> cc = [] \<or> c r \<in> set cc | None \<Rightarrow> True))
                (rows df) \<noteq> []))"
  by (cases cf; cases "cc = []")
     (simp_all add: invalid_value_in_field_def Let_def select_isin select_isin_cond)

subsection \<open>The country codes\<close>

lemma series_apply_correct_iso3:
  "series_apply (correct_iso3 codes) (map Some ss)
   = Inr (map (\<lambda>s. correct_iso3_loop codes (py_split CHR '';'' s)) ss)"
  by (induction ss) (auto simp: correct_iso3_def)

lemma correct_iso3_loop_all: "correct_iso3_loop codes parts \<longleftrightarrow> set parts \<subseteq> set codes"
  by (induction parts) auto

lemma series_apply_missing:
  "None \<in> set xs \<Longrightarrow> series_apply (correct_iso3 codes) xs = Inl AttributeError"
proof (induction xs)
  case Nil
  then show ?case by simp
next
  case (Cons x xs)
  then show ?case
    by (cases x) (auto simp: correct_iso3_def split: sum.splits)
qed

text \<open>
  Where no record of the table lacks the code, a record with an empty component in it is
  flagged: the empty string is no reference code.
\<close>

lemma empty_code_component_flagged_without_missing:
  assumes "r \<in> set (rows df)" and "field r = Some s"
    and "[] \<in> set (py_split CHR '';'' s)" and "[] \<notin> set alpha_3"
    and nn: "\<forall>r' \<in> set (rows df). field r' \<noteq> None"
  shows "\<exists>ps. fst (invalid_country_codes alpha_3 df field True) = Inr (Pids ps)
              \<and> WDPA_PID r \<in> set ps
              \<and> fst (invalid_country_codes alpha_3 df field False) = Inr (Flag True)"
proof -
  let ?ok = "\<lambda>s. correct_iso3_loop (iso3 alpha_3) (py_split CHR '';'' s)"
  have empty: "[] \<notin> set (iso3 alpha_3)"
    using assms(4) by (simp add: iso3_def)
  have bad: "\<not> ?ok s"
    using assms(3) empty by (auto simp: correct_iso3_loop_all)
  have col: "map field (rows df) = map Some (map (\<lambda>r. the (field r)) (rows df))"
    using nn by (induction "rows df") auto
  have ap: "series_apply (correct_iso3 (iso3 alpha_3)) (map field (rows df))
            = Inr (map ?ok (map (\<lambda>r. the (field r)) (rows df)))"
    by (subst col) (rule series_apply_correct_iso3)
  have records: "map ?ok (map (\<lambda>r. the (field r)) (rows df)) \<noteq> []"
    using assms(1) by auto
  have sel: "select_rows (map Not (map ?ok (map (\<lambda>r. the (field r)) (rows df)))) (rows df)
             = filter (\<lambda>r. \<not> ?ok (the (field r))) (rows df)"
    by (rule select_not_map)
  have mem: "r \<in> set (filter (\<lambda>r. \<not> ?ok (the (field r))) (rows df))"
    using assms(1,2) bad by simp
  then have pid: "WDPA_PID r \<in> set (map WDPA_PID (filter (\<lambda>r. \<not> ?ok (the (field r))) (rows df)))"
    by force
  have ne: "filter (\<lambda>r. \<not> ?ok (the (field r))) (rows df) \<noteq> []"
    using mem by (metis empty_iff empty_set)
  have p: "fst (invalid_country_codes alpha_3 df field True)
           = Inr (Pids (map WDPA_PID (filter (\<lambda>r. \<not> ?ok (the (field r))) (rows df))))"
    unfolding invalid_country_codes_def ap sum.case Let_def sel using records by simp
  have f: "fst (invalid_country_codes alpha_3 df field False) = Inr (Flag True)"
    unfolding invalid_country_codes_def ap sum.case Let_def sel using ne records by simp
  show ?thesis using p pid f by blast
qed

subsection \<open>Duplicate identifiers\<close>

text \<open>
  Every record is either a first occurrence of its identifier (and counted by \<open>unique\<close>)
  or marked by \<open>duplicated\<close>.
\<close>

lemma unique_plus_duplicated:
  "set seen = set seen'
   \<Longrightarrow> length (unique_from seen xs) + length (select_rows (duplicated_from seen' xs) xs)
       = length xs"
proof (induction xs arbitrary: seen seen')
  case Nil
  then show ?case by (simp add: select_rows_def)
next
  case (Cons x xs)
  show ?case
  proof (cases "x \<in> set seen")
    case True
    then have "set seen = set (x # seen')" using Cons.prems by auto
    from Cons.IH [OF this] True Cons.prems show ?thesis
      by (simp add: select_rows_def)
  next
    case False
    have "set (x # seen) = set (x # seen')" using Cons.prems by simp
    from Cons.IH [OF this] False Cons.prems show ?thesis
      by (simp add: select_rows_def)
  qed
qed

lemma unique_from_Nil_iff: "unique_from [] xs = [] \<longleftrightarrow> xs = []"
  by (cases xs) auto

text \<open>
  Where no record lacks its \<open>WDPA_PID\<close>, the boolean mode of \<open>duplicate_wdpa_pid\<close> is the
  non-emptiness of what the identifier mode returns.
\<close>

lemma duplicate_wdpa_pid_modes_agree_without_missing:
  assumes "\<forall>r \<in> set (rows df). WDPA_PID r \<noteq> None"
  shows "\<exists>ps. fst (duplicate_wdpa_pid df True) = Pids ps
              \<and> fst (duplicate_wdpa_pid df False) = Flag (ps \<noteq> [])"
proof -
  let ?ids = "map WDPA_PID (rows df)"
  have keep: "filter (\<lambda>x. x \<noteq> None) ?ids = ?ids"
    using assms by (simp add: filter_id_conv)
  have nu: "pd_nunique ?ids = length (pd_unique ?ids)"
    by (simp only: pd_nunique_def keep)
  have "length (pd_unique ?ids) + length (select_rows (pd_duplicated ?ids) ?ids) = length ?ids"
    unfolding pd_unique_def pd_duplicated_def by (rule unique_plus_duplicated) simp
  then have "pd_nunique ?ids \<noteq> length (rows df) \<longleftrightarrow> select_rows (pd_duplicated ?ids) ?ids \<noteq> []"
    unfolding nu by auto
  also have "\<dots> \<longleftrightarrow> pd_unique (select_rows (pd_duplicated ?ids) ?ids) \<noteq> []"
    by (simp add: pd_unique_def unique_from_Nil_iff)
  finally show ?thesis
    by (simp add: duplicate_wdpa_pid_def Let_def)
qed

section \<open>The claims\<close>



text \<open>
  C2. The boolean mode of \<open>duplicate_wdpa_pid\<close> is not the non-emptiness of what its
  identifier mode returns: on a table of one record without a \<open>WDPA_PID\<close>, \<open>nunique()\<close>
  counts no value, the table has one record, and the boolean mode answers \<open>True\<close>, while
  no value is duplicated.
\<close>

theorem duplicate_wdpa_pid_modes_disagree:
  "fst (duplicate_wdpa_pid (table_of [sample_row\<lparr>WDPA_PID := None\<rparr>]) False) = Flag True
   \<and> fst (duplicate_wdpa_pid (table_of [sample_row\<lparr>WDPA_PID := None\<rparr>]) True) = Pids []"
  by (simp add: duplicate_wdpa_pid_def table_of_def pd_nunique_def pd_unique_def
                pd_duplicated_def select_rows_def)

text \<open>
  C3. The country-code checks raise on a record whose code is missing: \<open>split\<close> is called
  on the missing value.
\<close>

theorem country_codes_raise_on_missing_value:
  "fst (invalid_iso3 alpha_3 (table_of [sample_row\<lparr>ISO3 := None\<rparr>]) return_pid)
     = Inl AttributeError
   \<and> fst (invalid_parent_iso3 alpha_3 (table_of [sample_row\<lparr>PARENT_ISO3 := None\<rparr>]) return_pid)
     = Inl AttributeError"
  by (simp add: invalid_iso3_def invalid_parent_iso3_def invalid_country_codes_def
                table_of_def correct_iso3_def)

text \<open>
  The claim C4 as it is written fails: \<open>area_invalid_marine\<close> leaves the table with two
  columns more than it was given.
\<close>

theorem area_invalid_marine_changes_table:
  "(\<forall>ar. snd (area_invalid_marine ar (table_of [sample_row]) True)
           = \<lparr>rows = [sample_row], marine_GIS_proportion = Some [Fin 0],
              marine_GIS_value = Some [Some ''0'']\<rparr>)
   \<and> (\<forall>ar. snd (area_invalid_marine ar (table_of [sample_row]) True) \<noteq> table_of [sample_row])"
  by (simp add: area_invalid_marine_def table_of_def sample_row_def assign_marine_gis_value_def
                fl_le_def fl_div_def is_inf_def is_zero_def zero_with_def float_0_1_def)

text \<open>
  C4 (as amended). Of the checks of the lists, only the marine check
  \<open>area_invalid_marine\<close> changes the table it is given. Every other check leaves the
  table as it was, whether it returns or raises: none of them has an item assignment, and
  \<open>forbidden_character\<close> binds its own name to the table without the incomplete records
  and leaves the caller's table with them. The marine check sets the two columns
  \<open>marine_GIS_proportion\<close> and \<open>marine_GIS_value\<close> to the ratio and the band of each
  record and leaves the records, with all their fields, as they were; on the table that it
  has left, it returns what it returned and sets the same columns again.
\<close>

theorem only_marine_check_assigns_to_table:
  "((name, check) \<in> set (poly_checks ar alpha_3 year) \<and> name \<noteq> ''ivd_marine_designation''
      \<longrightarrow> snd (check df return_pid) = df)
   \<and> (''ivd_marine_designation'', no_raise (area_invalid_marine ar))
       \<in> set (poly_checks ar alpha_3 year)
   \<and> snd (area_invalid_marine ar df return_pid) =
       df\<lparr>marine_GIS_proportion :=
            Some (map (\<lambda>r. fl_div ar (GIS_M_AREA r) (GIS_AREA r)) (rows df)),
          marine_GIS_value :=
            Some (map (\<lambda>r. spec_marine_band (fl_div ar (GIS_M_AREA r) (GIS_AREA r))) (rows df))\<rparr>
   \<and> rows (snd (area_invalid_marine ar df return_pid)) = rows df
   \<and> area_invalid_marine ar (snd (area_invalid_marine ar df return_pid)) again
       = (fst (area_invalid_marine ar df again), snd (area_invalid_marine ar df return_pid))"
proof -
  have others: "(name, check) \<in> set (poly_checks ar alpha_3 year)
                  \<and> name \<noteq> ''ivd_marine_designation''
                \<longrightarrow> snd (check df return_pid) = df"
    using frame_core_checks [of name check ar alpha_3 year df return_pid]
          frame_area_checks [of name check ar df return_pid]
    by (auto simp: poly_checks_def)
  have entry: "(''ivd_marine_designation'', no_raise (area_invalid_marine ar))
                 \<in> set (poly_checks ar alpha_3 year)"
    by (simp add: poly_checks_def area_checks_def)
  have after: "snd (area_invalid_marine ar df return_pid) =
       df\<lparr>marine_GIS_proportion :=
            Some (map (\<lambda>r. fl_div ar (GIS_M_AREA r) (GIS_AREA r)) (rows df)),
          marine_GIS_value :=
            Some (map (\<lambda>r. spec_marine_band (fl_div ar (GIS_M_AREA r) (GIS_AREA r))) (rows df))\<rparr>"
    by (rule area_invalid_marine_table)
  have same: "rows (snd (area_invalid_marine ar df return_pid)) = rows df"
    by (simp add: after)
  have again: "area_invalid_marine ar (snd (area_invalid_marine ar df return_pid)) again
       = (fst (area_invalid_marine ar df again), snd (area_invalid_marine ar df return_pid))"
    by (rule prod_eqI)
       (simp_all add: area_invalid_marine_rows same area_invalid_marine_table)
  show ?thesis
    using others entry after same again by blast
qed

theorem only_marine_check_assigns_to_table_witness:
  "(''ivd_character_name'', forbidden_character_name) \<in> set (poly_checks exact_arith [''USA''] 2019)
   \<and> ''ivd_character_name'' \<noteq> ''ivd_marine_designation''
   \<and> rows (dropna (table_of [sample_row\<lparr>SUB_LOC := None\<rparr>])) = []
   \<and> snd (forbidden_character_name (table_of [sample_row\<lparr>SUB_LOC := None\<rparr>]) True)
       = table_of [sample_row\<lparr>SUB_LOC := None\<rparr>]"
proof -
  have h1: "(''ivd_character_name'', forbidden_character_name)
              \<in> set (poly_checks exact_arith [''USA''] 2019)"
    by (simp add: poly_checks_def core_checks_def)
  have h2: "''ivd_character_name'' \<noteq> ''ivd_marine_designation''" by simp
  have d: "rows (dropna (table_of [sample_row\<lparr>SUB_LOC := None\<rparr>])) = []"
    by (simp add: dropna_def table_of_def sample_row_def row_notna_def column_notna_def
                  select_rows_def)
  show ?thesis
    using only_marine_check_assigns_to_table
            [of "''ivd_character_name''" forbidden_character_name exact_arith "[''USA'']" 2019
                "table_of [sample_row\<lparr>SUB_LOC := None\<rparr>]" True]
          h1 h2 d
    by blast
qed




text \<open>
  C6. \<open>forbidden_character\<close> drops every record with a missing value in any field before
  it looks at the target field: a record with an asterisk in \<open>NAME\<close> and no \<open>SUB_LOC\<close> is
  not flagged, while the same record with a \<open>SUB_LOC\<close> is.
\<close>

theorem forbidden_character_misses_record_with_other_field_missing:
  "fst (forbidden_character (table_of [sample_row\<lparr>NAME := Some ''Lake*'', SUB_LOC := None\<rparr>])
          NAME True) = Inr (Pids [])
   \<and> fst (forbidden_character (table_of [sample_row\<lparr>NAME := Some ''Lake*'', SUB_LOC := None\<rparr>])
          NAME False) = Inr (Flag False)
   \<and> fst (forbidden_character (table_of [sample_row\<lparr>NAME := Some ''Lake*''\<rparr>]) NAME True)
       = Inr (Pids [Some ''1''])"
  by (simp add: forbidden_character_def dropna_def table_of_def sample_row_def row_notna_def
                column_notna_def select_rows_def str_contains_def)

text \<open>
  C7. The marine check derives the band from the ratio of \<open>GIS_M_AREA\<close> to \<open>GIS_AREA\<close>,
  a float64 number: a ratio of at most 0.1 gives band 0, one strictly between 0.1 and 0.9
  band 1, one of at least 0.9 band 2, so that 0.1 itself is in band 0 and 0.9 itself in
  band 2, these two being the float64 numbers that the literals denote. It flags exactly
  the records whose derived band differs from \<open>MARINE\<close>, a record without a band being one
  of them. This holds whatever the rounding of the quotient is.
\<close>

theorem marine_bands_and_flags:
  "assign_marine_gis_value (Fin float_0_1) (Fin float_0_9) p = spec_marine_band p
   \<and> spec_marine_band (Fin float_0_1) = Some ''0''
   \<and> spec_marine_band (Fin float_0_9) = Some ''2''
   \<and> (fl_le p (Fin float_0_1)
        \<longrightarrow> assign_marine_gis_value (Fin float_0_1) (Fin float_0_9) p = Some ''0'')
   \<and> (fl_less (Fin float_0_1) p \<and> fl_less p (Fin float_0_9)
        \<longrightarrow> assign_marine_gis_value (Fin float_0_1) (Fin float_0_9) p = Some ''1'')
   \<and> (fl_ge p (Fin float_0_9)
        \<longrightarrow> assign_marine_gis_value (Fin float_0_1) (Fin float_0_9) p = Some ''2'')
   \<and> fst (area_invalid_marine ar df True) = Pids (map WDPA_PID (spec_marine ar (rows df)))
   \<and> fst (area_invalid_marine ar df False) = Flag (spec_marine ar (rows df) \<noteq> [])
   \<and> the (marine_GIS_value (snd (area_invalid_marine ar df return_pid)))
       = map (\<lambda>r. spec_marine_band (fl_div ar (GIS_M_AREA r) (GIS_AREA r))) (rows df)"
proof -
  have b0: "fl_le p (Fin float_0_1) \<longrightarrow> spec_marine_band p = Some ''0''"
    by (cases p)
       (auto simp: spec_marine_band_def fl_le_def fl_eq_def is_zero_def float_0_1_def)
  have b1: "fl_less (Fin float_0_1) p \<and> fl_less p (Fin float_0_9)
            \<longrightarrow> spec_marine_band p = Some ''1''"
    by (cases p) (auto simp: spec_marine_band_def float_0_1_def float_0_9_def)
  have b2: "fl_ge p (Fin float_0_9) \<longrightarrow> spec_marine_band p = Some ''2''"
    by (cases p)
       (auto simp: spec_marine_band_def fl_le_def fl_ge_def fl_eq_def is_zero_def
                   float_0_1_def float_0_9_def)
  have pid: "fst (area_invalid_marine ar df True) = Pids (map WDPA_PID (spec_marine ar (rows df)))"
    by (simp add: area_invalid_marine_rows spec_outcome_def)
  have flag: "fst (area_invalid_marine ar df False) = Flag (spec_marine ar (rows df) \<noteq> [])"
    by (simp add: area_invalid_marine_rows spec_outcome_def)
  have col: "the (marine_GIS_value (snd (area_invalid_marine ar df return_pid)))
       = map (\<lambda>r. spec_marine_band (fl_div ar (GIS_M_AREA r) (GIS_AREA r))) (rows df)"
    by (simp add: area_invalid_marine_table)
  have e0: "spec_marine_band (Fin float_0_1) = Some ''0''"
    by (simp add: spec_marine_band_def)
  have e2: "spec_marine_band (Fin float_0_9) = Some ''2''"
    by (simp add: spec_marine_band_def float_0_1_def float_0_9_def)
  show ?thesis
    unfolding assign_marine_gis_value_spec using b0 b1 b2 e0 e2 pid flag col by blast
qed

theorem marine_bands_and_flags_witness:
  "fl_le (Fin float_0_1) (Fin float_0_1)
   \<and> assign_marine_gis_value (Fin float_0_1) (Fin float_0_9) (Fin float_0_1) = Some ''0''
   \<and> fl_less (Fin float_0_1) (Fin (7206479979733173 / 72057594037927936))
   \<and> fl_less (Fin (7206479979733173 / 72057594037927936)) (Fin float_0_9)
   \<and> assign_marine_gis_value (Fin float_0_1) (Fin float_0_9)
       (Fin (7206479979733173 / 72057594037927936)) = Some ''1''
   \<and> fl_ge (Fin float_0_9) (Fin float_0_9)
   \<and> assign_marine_gis_value (Fin float_0_1) (Fin float_0_9) (Fin float_0_9) = Some ''2''
   \<and> spec_marine exact_arith
       [sample_row\<lparr>GIS_M_AREA := Fin 5, MARINE := Some ''1''\<rparr>,
        sample_row\<lparr>WDPA_PID := Some ''2'', GIS_M_AREA := Fin 5, MARINE := Some ''0''\<rparr>,
        sample_row\<lparr>WDPA_PID := Some ''3'', GIS_M_AREA := Fin 10, MARINE := Some ''1''\<rparr>]
     = [sample_row\<lparr>WDPA_PID := Some ''2'', GIS_M_AREA := Fin 5, MARINE := Some ''0''\<rparr>,
        sample_row\<lparr>WDPA_PID := Some ''3'', GIS_M_AREA := Fin 10, MARINE := Some ''1''\<rparr>]
   \<and> fst (area_invalid_marine exact_arith
        (table_of [sample_row\<lparr>GIS_M_AREA := Fin 5, MARINE := Some ''1''\<rparr>,
                   sample_row\<lparr>WDPA_PID := Some ''2'', GIS_M_AREA := Fin 5, MARINE := Some ''0''\<rparr>,
                   sample_row\<lparr>WDPA_PID := Some ''3'', GIS_M_AREA := Fin 10, MARINE := Some ''1''\<rparr>])
        True)
     = Pids [Some ''2'', Some ''3'']"
proof -
  let ?mid = "Fin (7206479979733173 / 72057594037927936)"
  let ?rs = "[sample_row\<lparr>GIS_M_AREA := Fin 5, MARINE := Some ''1''\<rparr>,
              sample_row\<lparr>WDPA_PID := Some ''2'', GIS_M_AREA := Fin 5, MARINE := Some ''0''\<rparr>,
              sample_row\<lparr>WDPA_PID := Some ''3'', GIS_M_AREA := Fin 10, MARINE := Some ''1''\<rparr>]"
  have h0: "fl_le (Fin float_0_1) (Fin float_0_1)"
    by (simp add: fl_le_def fl_eq_def)
  have h1: "fl_less (Fin float_0_1) ?mid \<and> fl_less ?mid (Fin float_0_9)"
    by (simp add: float_0_1_def float_0_9_def)
  have h2: "fl_ge (Fin float_0_9) (Fin float_0_9)"
    by (simp add: fl_ge_def fl_le_def fl_eq_def)
  have c0: "assign_marine_gis_value (Fin float_0_1) (Fin float_0_9) (Fin float_0_1) = Some ''0''"
    using h0 marine_bands_and_flags [of "Fin float_0_1"] by blast
  have c1: "assign_marine_gis_value (Fin float_0_1) (Fin float_0_9) ?mid = Some ''1''"
    using h1 marine_bands_and_flags [of ?mid] by blast
  have c2: "assign_marine_gis_value (Fin float_0_1) (Fin float_0_9) (Fin float_0_9) = Some ''2''"
    using h2 marine_bands_and_flags [of "Fin float_0_9"] by blast
  have s: "spec_marine exact_arith ?rs
           = [sample_row\<lparr>WDPA_PID := Some ''2'', GIS_M_AREA := Fin 5, MARINE := Some ''0''\<rparr>,
              sample_row\<lparr>WDPA_PID := Some ''3'', GIS_M_AREA := Fin 10, MARINE := Some ''1''\<rparr>]"
    by (simp add: spec_marine_def spec_marine_band_def sample_row_def fl_div_def is_inf_def
                  is_zero_def rounded_def exact_arith_def float_0_1_def float_0_9_def)
  have c3: "fst (area_invalid_marine exact_arith (table_of ?rs) True) = Pids [Some ''2'', Some ''3'']"
    using marine_bands_and_flags [of _ exact_arith "table_of ?rs"] s
    by (simp add: table_of_def)
  show ?thesis using h0 h1 h2 c0 c1 c2 s c3 by blast
qed

text \<open>
  C8. The membership check is antitone in the allowed values. Adding a value \<open>v\<close> to the
  allowed values gives the result of the check on the table without the records that
  hold \<open>v\<close>: such a record contributes no entry to the returned array. With distinct
  identifiers, the identifier of a record whose value is allowed is not returned; in general
  it is returned only for another record of the same identifier whose value is not
  allowed. And over a larger allowed set, every returned identifier was returned before.
\<close>

theorem membership_antitone_in_allowed_values:
  "fst (invalid_value_in_field df field (v # S) cf cc True)
     = fst (invalid_value_in_field (df\<lparr>rows := filter (\<lambda>r. field r \<noteq> v) (rows df)\<rparr>)
              field S cf cc True)
   \<and> (r \<in> set (rows df) \<and> field r \<in> set S \<and> distinct (map WDPA_PID (rows df))
        \<longrightarrow> (\<exists>ps. fst (invalid_value_in_field df field S cf cc True) = Pids ps
                   \<and> WDPA_PID r \<notin> set ps))
   \<and> (r \<in> set (rows df) \<and> field r \<in> set S
        \<longrightarrow> (\<exists>ps. fst (invalid_value_in_field df field S cf cc True) = Pids ps
                   \<and> (WDPA_PID r \<in> set ps
                        \<longrightarrow> (\<exists>r' \<in> set (rows df). WDPA_PID r' = WDPA_PID r \<and> field r' \<notin> set S))))
   \<and> (set S \<subseteq> set S'
        \<longrightarrow> (\<exists>ps ps'. fst (invalid_value_in_field df field S cf cc True) = Pids ps
                    \<and> fst (invalid_value_in_field df field S' cf cc True) = Pids ps'
                    \<and> set ps' \<subseteq> set ps))"
proof -
  let ?cond = "\<lambda>r. case cf of Some c \<Rightarrow> cc = [] \<or> c r \<in> set cc | None \<Rightarrow> True"
  have a: "fst (invalid_value_in_field df field (v # S) cf cc True)
     = fst (invalid_value_in_field (df\<lparr>rows := filter (\<lambda>r. field r \<noteq> v) (rows df)\<rparr>)
              field S cf cc True)"
    unfolding invalid_value_in_field_rows
    by (auto intro!: arg_cong[where f = "map WDPA_PID"] filter_cong)
  have b: "\<exists>ps. fst (invalid_value_in_field df field S cf cc True) = Pids ps
                \<and> WDPA_PID r \<notin> set ps"
    if r: "r \<in> set (rows df)" and al: "field r \<in> set S" and d: "distinct (map WDPA_PID (rows df))"
  proof -
    have "WDPA_PID r \<notin> set (map WDPA_PID (filter (\<lambda>r. field r \<notin> set S \<and> ?cond r) (rows df)))"
    proof
      assume "WDPA_PID r \<in> set (map WDPA_PID (filter (\<lambda>r. field r \<notin> set S \<and> ?cond r) (rows df)))"
      then obtain r' where r': "r' \<in> set (rows df)" "field r' \<notin> set S" "WDPA_PID r' = WDPA_PID r"
        by auto
      from d r r' have "r' = r"
        by (metis distinct_map inj_onD)
      with r' al show False by simp
    qed
    then show ?thesis by (simp add: invalid_value_in_field_rows)
  qed
  have b': "\<exists>ps. fst (invalid_value_in_field df field S cf cc True) = Pids ps
                   \<and> (WDPA_PID r \<in> set ps
                        \<longrightarrow> (\<exists>r' \<in> set (rows df). WDPA_PID r' = WDPA_PID r \<and> field r' \<notin> set S))"
    by (auto simp: invalid_value_in_field_rows)
  have c: "\<exists>ps ps'. fst (invalid_value_in_field df field S cf cc True) = Pids ps
                    \<and> fst (invalid_value_in_field df field S' cf cc True) = Pids ps'
                    \<and> set ps' \<subseteq> set ps"
    if "set S \<subseteq> set S'"
    using that by (auto simp: invalid_value_in_field_rows)
  show ?thesis using a b b' c by blast
qed

theorem membership_antitone_in_allowed_values_witness:
  "sample_row \<in> set (rows (table_of [sample_row, sample_row\<lparr>WDPA_PID := Some ''2'', MARINE := Some ''7''\<rparr>]))
   \<and> MARINE sample_row \<in> set [Some ''0'', Some ''1'', Some ''2'']
   \<and> distinct (map WDPA_PID
        (rows (table_of [sample_row, sample_row\<lparr>WDPA_PID := Some ''2'', MARINE := Some ''7''\<rparr>])))
   \<and> set [Some ''1'', Some ''2''] \<subseteq> set [Some ''0'', Some ''1'', Some ''2'']
   \<and> fst (invalid_value_in_field
       (table_of [sample_row, sample_row\<lparr>WDPA_PID := Some ''2'', MARINE := Some ''7''\<rparr>])
       MARINE [Some ''1'', Some ''2''] (None :: (row \<Rightarrow> string option) option) [] True)
     = Pids [Some ''1'', Some ''2'']
   \<and> fst (invalid_value_in_field
       (table_of [sample_row, sample_row\<lparr>WDPA_PID := Some ''2'', MARINE := Some ''7''\<rparr>])
       MARINE [Some ''0'', Some ''1'', Some ''2''] (None :: (row \<Rightarrow> string option) option) [] True)
     = Pids [Some ''2'']"
proof -
  let ?df = "table_of [sample_row, sample_row\<lparr>WDPA_PID := Some ''2'', MARINE := Some ''7''\<rparr>]"
  have h1: "sample_row \<in> set (rows ?df)" by (simp add: table_of_def)
  have h2: "MARINE sample_row \<in> set [Some ''0'', Some ''1'', Some ''2'']"
    by (simp add: sample_row_def)
  have h3: "distinct (map WDPA_PID (rows ?df))" by (simp add: table_of_def sample_row_def)
  have h4: "set [Some ''1'', Some ''2''] \<subseteq> set [Some ''0'', Some ''1'', Some (''2''::string)]"
    by simp
  have e1: "fst (invalid_value_in_field ?df MARINE [Some ''1'', Some ''2'']
              (None :: (row \<Rightarrow> string option) option) [] True) = Pids [Some ''1'', Some ''2'']"
    by (simp add: invalid_value_in_field_def table_of_def sample_row_def isin_def select_rows_def)
  have "fst (invalid_value_in_field ?df MARINE (Some ''0'' # [Some ''1'', Some ''2''])
          (None :: (row \<Rightarrow> string option) option) [] True)
        = fst (invalid_value_in_field (?df\<lparr>rows := filter (\<lambda>r. MARINE r \<noteq> Some ''0'') (rows ?df)\<rparr>)
            MARINE [Some ''1'', Some ''2''] (None :: (row \<Rightarrow> string option) option) [] True)"
    using membership_antitone_in_allowed_values
      [of ?df MARINE "Some ''0''" "[Some ''1'', Some ''2'']"
          "None :: (row \<Rightarrow> string option) option" "[]"]
    by (rule conjunct1)
  also have "\<dots> = Pids [Some ''2'']"
    by (simp add: invalid_value_in_field_def table_of_def sample_row_def isin_def select_rows_def)
  finally show ?thesis using h1 h2 h3 h4 e1 by simp
qed

text \<open>
  C9. A record whose marine ratio is undefined (both GIS areas zero, with either sign, or
  one of them missing) gets no band, and the check flags it whatever its \<open>MARINE\<close> value
  is.
\<close>

theorem undefined_marine_ratio_always_flagged:
  assumes "r \<in> set (rows df)"
    and "(is_zero (GIS_M_AREA r) \<and> is_zero (GIS_AREA r)) \<or> GIS_M_AREA r = NaN \<or> GIS_AREA r = NaN"
  shows "assign_marine_gis_value (Fin float_0_1) (Fin float_0_9)
            (fl_div ar (GIS_M_AREA r) (GIS_AREA r)) = None
         \<and> (\<exists>ps. fst (area_invalid_marine ar df True) = Pids ps \<and> WDPA_PID r \<in> set ps)
         \<and> fst (area_invalid_marine ar df False) = Flag True"
proof -
  have nan: "fl_div ar (GIS_M_AREA r) (GIS_AREA r) = NaN"
    using assms(2) by (auto simp: fl_div_def is_zero_def is_inf_def)
  have none: "assign_marine_gis_value (Fin float_0_1) (Fin float_0_9)
                (fl_div ar (GIS_M_AREA r) (GIS_AREA r)) = None"
    by (simp add: nan assign_marine_gis_value_def fl_le_def fl_ge_def fl_eq_def)
  have mem: "r \<in> set (spec_marine ar (rows df))"
    using assms(1) none by (simp add: spec_marine_def assign_marine_gis_value_spec)
  then have pid: "WDPA_PID r \<in> set (map WDPA_PID (spec_marine ar (rows df)))" by force
  have ne: "spec_marine ar (rows df) \<noteq> []" using mem by (metis empty_iff empty_set)
  have p: "fst (area_invalid_marine ar df True) = Pids (map WDPA_PID (spec_marine ar (rows df)))"
    by (simp add: area_invalid_marine_rows spec_outcome_def)
  have f: "fst (area_invalid_marine ar df False) = Flag True"
    using ne by (simp add: area_invalid_marine_rows spec_outcome_def)
  show ?thesis using none p pid f by blast
qed

theorem undefined_marine_ratio_always_flagged_witness:
  "sample_row\<lparr>GIS_AREA := Fin 0\<rparr> \<in> set (rows (table_of [sample_row\<lparr>GIS_AREA := Fin 0\<rparr>]))
   \<and> is_zero (GIS_M_AREA (sample_row\<lparr>GIS_AREA := Fin 0\<rparr>))
   \<and> is_zero (GIS_AREA (sample_row\<lparr>GIS_AREA := Fin 0\<rparr>))
   \<and> (\<forall>ar. fst (area_invalid_marine ar (table_of [sample_row\<lparr>GIS_AREA := Fin 0\<rparr>]) True)
            = Pids [Some ''1''])
   \<and> (\<forall>ar. fst (area_invalid_marine ar (table_of [sample_row\<lparr>GIS_AREA := Fin 0\<rparr>]) False)
            = Flag True)
   \<and> (\<forall>ar. fst (area_invalid_marine ar
               (table_of [sample_row\<lparr>GIS_M_AREA := NZero, GIS_AREA := Fin 0\<rparr>]) False)
            = Flag True)"
proof -
  let ?r = "sample_row\<lparr>GIS_AREA := Fin 0\<rparr>"
  let ?n = "sample_row\<lparr>GIS_M_AREA := NZero, GIS_AREA := Fin 0\<rparr>"
  have a: "?r \<in> set (rows (table_of [?r]))" by (simp add: table_of_def)
  have z: "is_zero (GIS_M_AREA ?r) \<and> is_zero (GIS_AREA ?r)"
    by (simp add: sample_row_def is_zero_def)
  have b: "(is_zero (GIS_M_AREA ?r) \<and> is_zero (GIS_AREA ?r))
           \<or> GIS_M_AREA ?r = NaN \<or> GIS_AREA ?r = NaN"
    using z by simp
  have an: "?n \<in> set (rows (table_of [?n]))" by (simp add: table_of_def)
  have bn: "(is_zero (GIS_M_AREA ?n) \<and> is_zero (GIS_AREA ?n))
            \<or> GIS_M_AREA ?n = NaN \<or> GIS_AREA ?n = NaN"
    by (simp add: is_zero_def)
  have c: "fst (area_invalid_marine ar (table_of [?r]) True) = Pids [Some ''1'']" for ar
    by (simp add: area_invalid_marine_def table_of_def sample_row_def select_rows_def
                  assign_marine_gis_value_def fl_le_def fl_ge_def fl_eq_def obj_ne_def
                  fl_div_def is_zero_def is_inf_def)
  have f: "fst (area_invalid_marine ar (table_of [?r]) False) = Flag True" for ar
    using undefined_marine_ratio_always_flagged [OF a b, of ar] by simp
  have fn: "fst (area_invalid_marine ar (table_of [?n]) False) = Flag True" for ar
    using undefined_marine_ratio_always_flagged [OF an bn, of ar] by simp
  show ?thesis
    using a z c f fn by simp
qed

text \<open>
  C10. A record whose code holds an empty component (a trailing \<open>;\<close> here) fails the
  per-record test, the empty string being no reference code, but the check does not flag
  it when another record of the table has no value in the field: the check raises on that
  record, as in C3, and returns nothing.
\<close>

theorem empty_code_component_not_flagged_when_code_missing:
  "py_split CHR '';'' ''USA;'' = [''USA'', '''']
   \<and> correct_iso3 (iso3 [''USA'']) (Some ''USA;'') = Inr False
   \<and> fst (invalid_iso3 alpha_3
       (table_of [sample_row\<lparr>ISO3 := Some ''USA;''\<rparr>,
                  sample_row\<lparr>WDPA_PID := Some ''2'', ISO3 := None\<rparr>]) return_pid)
     = Inl AttributeError
   \<and> fst (invalid_parent_iso3 alpha_3
       (table_of [sample_row\<lparr>PARENT_ISO3 := Some ''USA;''\<rparr>,
                  sample_row\<lparr>WDPA_PID := Some ''2'', PARENT_ISO3 := None\<rparr>]) return_pid)
     = Inl AttributeError"
  by (simp add: invalid_iso3_def invalid_parent_iso3_def invalid_country_codes_def
                table_of_def correct_iso3_def iso3_def split: sum.split)

end
